theory Spec2Isabelle
  imports Complex_Main
begin

section \<open>DDPG trainer (pytorchrl/algos/ddpg.py)\<close>

text \<open>
  A shallow embedding of the class \<open>DDPG\<close>. Network objects live in an explicit store
  (a list of cells addressed by index), because the trainer holds four references
  (\<open>policy\<close>, \<open>qf\<close>, \<open>target_policy\<close>, \<open>target_qf\<close>) and two optimizers that each mutate
  the object they were bound to.

  Numbers. The values that enter the regression targets (the batch's rewards and terminal
  markers, the discount, the target Q-values) are \<open>float64\<close> values with the special
  values of IEEE arithmetic: there a product with zero decides what the code computes.
  Parameter tensors, observations, actions and the rewards of the training loop are
  idealised as real numbers.
\<close>

subsection \<open>Tensors, batches, errors\<close>

type_synonym tensor = "real list"
type_synonym obs = "real list"
type_synonym act = "real list"
type_synonym ref = nat

datatype error = ValueError | NameError

text \<open>
  A double-precision value: a finite number, an infinity or NaN. The arithmetic on the
  special values is IEEE's; on finite values it is exact (no rounding, no overflow, one
  zero).
\<close>

datatype float64 = Fin real | PInf | NInf | NaN

fun fneg :: "float64 \<Rightarrow> float64" where
  "fneg (Fin x) = Fin (- x)"
| "fneg PInf = NInf"
| "fneg NInf = PInf"
| "fneg NaN = NaN"

fun fadd :: "float64 \<Rightarrow> float64 \<Rightarrow> float64" where
  "fadd NaN y = NaN"
| "fadd x NaN = NaN"
| "fadd (Fin x) (Fin y) = Fin (x + y)"
| "fadd PInf NInf = NaN"
| "fadd NInf PInf = NaN"
| "fadd PInf y = PInf"
| "fadd NInf y = NInf"
| "fadd (Fin x) y = y"

definition fsub :: "float64 \<Rightarrow> float64 \<Rightarrow> float64" where
  "fsub x y = fadd x (fneg y)"

fun fmul :: "float64 \<Rightarrow> float64 \<Rightarrow> float64" where
  "fmul NaN y = NaN"
| "fmul x NaN = NaN"
| "fmul (Fin x) (Fin y) = Fin (x * y)"
| "fmul (Fin x) y = (if x = 0 then NaN else if 0 < x then y else fneg y)"
| "fmul x (Fin y) = (if y = 0 then NaN else if 0 < y then x else fneg x)"
| "fmul PInf y = y"
| "fmul NInf y = fneg y"

definition is_finite :: "float64 \<Rightarrow> bool" where
  "is_finite x = (case x of Fin _ \<Rightarrow> True | _ \<Rightarrow> False)"

text \<open>The dict returned by \<open>pool.random_batch\<close>, with the five keys \<open>ext.extract\<close> reads.\<close>

record batch =
  observations :: "obs list"
  actions :: "act list"
  rewards :: "float64 list"
  next_observations :: "obs list"
  terminals :: "float64 list"

text \<open>
  numpy's elementwise binary operation on two column vectors (shapes \<open>(n, 1)\<close> and
  \<open>(m, 1)\<close>): equal lengths combine pointwise, a length-one column is broadcast, any
  other pair of shapes raises \<open>ValueError\<close>.
\<close>

definition broadcast2 :: "('a \<Rightarrow> 'a \<Rightarrow> 'a) \<Rightarrow> 'a list \<Rightarrow> 'a list \<Rightarrow> error + 'a list" where
  "broadcast2 f xs ys =
     (if length xs = length ys then Inr (map2 f xs ys)
      else if length xs = 1 then Inr (map (f (hd xs)) ys)
      else if length ys = 1 then Inr (map (\<lambda>x. f x (hd ys)) xs)
      else Inl ValueError)"

subsection \<open>Network objects and the store\<close>

text \<open>
  A network object owns its parameter tensors and their gradient buffers
  (\<open>None\<close> until the first backward pass reaches them).
\<close>

record network =
  param_values :: "tensor list"
  grad :: "tensor list option"

type_synonym heap = "network list"

text \<open>
  \<open>copy.deepcopy\<close> of a network: a new object at a fresh address, with copies of the
  parameter tensors; the gradient buffers of the copy are not set.
\<close>

definition deepcopy :: "heap \<Rightarrow> ref \<Rightarrow> heap \<times> ref" where
  "deepcopy h r = (h @ [(h ! r)\<lparr>grad := None\<rparr>], length h)"

text \<open>
  Modelled from the spec: \<open>get_param_values\<close> and \<open>set_param_values\<close> of the network
  classes (pytorchrl's policies and Q-functions) are not part of the source at hand; the
  spec gives them as \<open>get_param_values()/set_param_values(vector)\<close>, reading and
  overwriting the parameter vector of the object.
\<close>

definition get_param_values :: "heap \<Rightarrow> ref \<Rightarrow> tensor list" where
  "get_param_values h r = param_values (h ! r)"

definition set_param_values :: "heap \<Rightarrow> ref \<Rightarrow> tensor list \<Rightarrow> heap" where
  "set_param_values h r vs = h[r := (h ! r)\<lparr>param_values := vs\<rparr>]"

text \<open>
  Modelled from the spec: \<open>running_average_tensor_list\<close> of
  \<open>pytorchrl.misc.tensor_utils\<close> is not part of the source at hand. The spec's
  soft-update law: given live parameter value \<open>a\<close> and prior target value \<open>b\<close>, the
  new target equals \<open>\<tau> * a + (1 - \<tau>) * b\<close>, for each parameter. The first argument is
  the prior (target) list, the second the live list, as \<open>do_training\<close> passes them.
\<close>

definition running_average_tensor :: "tensor \<Rightarrow> tensor \<Rightarrow> real \<Rightarrow> tensor" where
  "running_average_tensor first second rate =
     map2 (\<lambda>b a. rate * a + (1 - rate) * b) first second"

definition running_average_tensor_list :: "tensor list \<Rightarrow> tensor list \<Rightarrow> real \<Rightarrow> tensor list" where
  "running_average_tensor_list first_list second_list rate =
     map2 (\<lambda>first second. running_average_tensor first second rate) first_list second_list"

subsection \<open>Gradient buffers and optimizers\<close>

definition tensor_list_add :: "tensor list \<Rightarrow> tensor list \<Rightarrow> tensor list" where
  "tensor_list_add gs ds = map2 (map2 (+)) gs ds"

text \<open>\<open>backward\<close> accumulates into the buffer of every parameter it reaches.\<close>

definition accumulate_grad :: "heap \<Rightarrow> ref \<Rightarrow> tensor list \<Rightarrow> heap" where
  "accumulate_grad h r ds =
     h[r := (h ! r)\<lparr>grad := (case grad (h ! r) of
                                None \<Rightarrow> Some ds
                              | Some gs \<Rightarrow> Some (tensor_list_add gs ds))\<rparr>]"

text \<open>
  An update method (\<open>optim.Adam\<close> by default) is a collaborator: given the learning
  rate, the weight decay (\<open>None\<close> when the constructor call does not pass one, so that
  the method's own default applies), its internal state, the parameters and their
  gradients, it returns the new parameters and its new internal state.
\<close>

type_synonym update_method =
  "real \<Rightarrow> real option \<Rightarrow> tensor list \<Rightarrow> tensor list \<Rightarrow> tensor list option \<Rightarrow> tensor list \<times> tensor list"

record optimizer =
  opt_params :: ref
  opt_method :: update_method
  opt_lr :: real
  opt_weight_decay :: "real option"
  opt_state :: "tensor list"

definition new_optimizer :: "update_method \<Rightarrow> ref \<Rightarrow> real \<Rightarrow> real option \<Rightarrow> optimizer" where
  "new_optimizer method r rate wd =
     \<lparr>opt_params = r, opt_method = method, opt_lr = rate, opt_weight_decay = wd, opt_state = []\<rparr>"

definition zero_grad :: "optimizer \<Rightarrow> heap \<Rightarrow> heap" where
  "zero_grad opt h =
     h[opt_params opt := (h ! opt_params opt)\<lparr>grad := map_option (map (map (\<lambda>_. 0))) (grad (h ! opt_params opt))\<rparr>]"

definition opt_step :: "optimizer \<Rightarrow> heap \<Rightarrow> optimizer \<times> heap" where
  "opt_step opt h =
     (let n = h ! opt_params opt;
          (ps, st) = opt_method opt (opt_lr opt) (opt_weight_decay opt) (opt_state opt)
                       (param_values n) (grad n)
      in (opt\<lparr>opt_state := st\<rparr>, h[opt_params opt := n\<lparr>param_values := ps\<rparr>]))"

subsection \<open>Collaborators\<close>

text \<open>
  The environment, the exploration strategy, the replay pool (rllab's
  \<open>SimpleReplayPool\<close>), the parallel sampler and the numerical framework are external.
  Their state is one opaque value of type \<open>'w\<close> that every call takes and returns; the
  networks' forward and backward passes are functions of the parameter values. Calls are
  taken to return normally (an exception of a collaborator ends the run, and the trainer
  handles none).
\<close>

record 'w collab =
  env_observation_shape :: "nat list"
  env_action_shape :: "nat list"
  env_reset :: "'w \<Rightarrow> obs \<times> 'w"
  env_step :: "act \<Rightarrow> 'w \<Rightarrow> (obs \<times> real \<times> bool) \<times> 'w"
  env_render :: "'w \<Rightarrow> 'w"
  env_terminate :: "'w \<Rightarrow> 'w"
  es_reset :: "'w \<Rightarrow> 'w"
  es_get_action :: "int \<Rightarrow> obs \<Rightarrow> tensor list \<Rightarrow> 'w \<Rightarrow> act \<times> 'w"
  pool_new :: "int \<Rightarrow> nat \<Rightarrow> nat \<Rightarrow> 'w \<Rightarrow> 'w"
  pool_add_sample :: "obs \<Rightarrow> act \<Rightarrow> real \<Rightarrow> bool \<Rightarrow> 'w \<Rightarrow> 'w"
  pool_size :: "'w \<Rightarrow> int"
  pool_random_batch :: "int \<Rightarrow> 'w \<Rightarrow> batch \<times> 'w"
  populate_task :: "tensor list \<Rightarrow> 'w \<Rightarrow> 'w"
  sample_paths :: "tensor list \<Rightarrow> int \<Rightarrow> int \<Rightarrow> 'w \<Rightarrow> 'w"
  save_itr_params :: "int \<Rightarrow> 'w \<Rightarrow> 'w"
  get_action :: "tensor list \<Rightarrow> obs list \<Rightarrow> act list"
  get_qval :: "tensor list \<Rightarrow> obs list \<Rightarrow> act list \<Rightarrow> float64 list"
  qf_loss_grad :: "tensor list \<Rightarrow> obs list \<Rightarrow> act list \<Rightarrow> float64 list \<Rightarrow> tensor list"
  policy_surr_grad :: "tensor list \<Rightarrow> tensor list \<Rightarrow> obs list \<Rightarrow> tensor list \<times> tensor list"

subsection \<open>The trainer object\<close>

text \<open>The arguments of \<open>DDPG.__init__\<close> (\<open>env\<close> and \<open>es\<close> are collaborators).\<close>

record ddpg_args =
  arg_policy :: ref
  arg_qf :: ref
  arg_batch_size :: int
  arg_n_epochs :: int
  arg_epoch_length :: int
  arg_min_pool_size :: int
  arg_replay_pool_size :: int
  arg_discount :: float64
  arg_max_path_length :: int
  arg_qf_weight_decay :: real
  arg_qf_update_method :: update_method
  arg_qf_learning_rate :: real
  arg_policy_weight_decay :: real
  arg_policy_update_method :: update_method
  arg_policy_learning_rate :: real
  arg_eval_samples :: int
  arg_soft_target :: bool
  arg_soft_target_tau :: real
  arg_n_updates_per_sample :: int
  arg_scale_reward :: real
  arg_include_horizon_terminal_transitions :: bool
  arg_plot :: bool
  arg_pause_for_plot :: bool

text \<open>The attributes of \<open>self\<close>, in the order \<open>__init__\<close> assigns them.\<close>

record ddpg =
  observation_dim :: nat
  action_dim :: nat
  policy :: ref
  qf :: ref
  batch_size :: int
  n_epoch :: int
  epoch_length :: int
  min_pool_size :: int
  replay_pool_size :: int
  discount :: float64
  max_path_length :: int
  qf_weight_decay :: real
  eval_samples :: int
  soft_target_tau :: real
  n_updates_per_sample :: int
  include_horizon_terminal_transitions :: bool
  plot :: bool
  pause_for_plot :: bool
  target_qf :: ref
  target_policy :: ref
  qf_optimizer :: optimizer
  policy_optimizer :: optimizer
  qf_loss_averages :: "real list"
  policy_surr_averages :: "real list"
  q_averages :: "real list"
  y_averages :: "real list"
  paths :: "real list"
  es_path_returns :: "real list"
  paths_samples_cnt :: int
  scale_reward :: real

definition DDPG_init :: "'w collab \<Rightarrow> ddpg_args \<Rightarrow> heap \<Rightarrow> ddpg \<times> heap" where
  "DDPG_init c a h =
     (let (h1, tq) = deepcopy h (arg_qf a);
          (h2, tp) = deepcopy h1 (arg_policy a)
      in (\<lparr>observation_dim = prod_list (env_observation_shape c),
           action_dim = prod_list (env_action_shape c),
           policy = arg_policy a,
           qf = arg_qf a,
           batch_size = arg_batch_size a,
           n_epoch = arg_n_epochs a,
           epoch_length = arg_epoch_length a,
           min_pool_size = arg_min_pool_size a,
           replay_pool_size = arg_replay_pool_size a,
           discount = arg_discount a,
           max_path_length = arg_max_path_length a,
           qf_weight_decay = arg_qf_weight_decay a,
           eval_samples = arg_eval_samples a,
           soft_target_tau = arg_soft_target_tau a,
           n_updates_per_sample = arg_n_updates_per_sample a,
           include_horizon_terminal_transitions = arg_include_horizon_terminal_transitions a,
           plot = arg_plot a,
           pause_for_plot = arg_pause_for_plot a,
           target_qf = tq,
           target_policy = tp,
           qf_optimizer = new_optimizer (arg_qf_update_method a) (arg_qf a)
                            (arg_qf_learning_rate a) (Some (arg_qf_weight_decay a)),
           policy_optimizer = new_optimizer (arg_policy_update_method a) (arg_policy a)
                                (arg_policy_learning_rate a) None,
           qf_loss_averages = [],
           policy_surr_averages = [],
           q_averages = [],
           y_averages = [],
           paths = [],
           es_path_returns = [],
           paths_samples_cnt = 0,
           scale_reward = arg_scale_reward a\<rparr>, h2))"

subsection \<open>The update step\<close>

text \<open>
  \<open>train_qf\<close>: the loss is the mean squared error between \<open>qf(obs, actions)\<close> and the
  expected Q-values; \<open>zero_grad\<close>, \<open>backward\<close> (which reaches the parameters of
  \<open>qf\<close> only, the inputs carrying no gradient) and one step of the critic's optimizer.
\<close>

definition train_qf :: "'w collab \<Rightarrow> ddpg \<Rightarrow> heap \<Rightarrow> float64 list \<Rightarrow> obs list \<Rightarrow> act list \<Rightarrow> ddpg \<times> heap" where
  "train_qf c self h expected_qval obs_val actions_val =
     (let g = qf_loss_grad c (get_param_values h (qf self)) obs_val actions_val expected_qval;
          h1 = zero_grad (qf_optimizer self) h;
          h2 = accumulate_grad h1 (qf self) g;
          (opt, h3) = opt_step (qf_optimizer self) h2
      in (self\<lparr>qf_optimizer := opt\<rparr>, h3))"

text \<open>
  \<open>train_policy\<close>: the surrogate is \<open>-qf(obs, policy(obs)).mean()\<close>; its backward pass
  reaches the parameters of the policy and, through the critic's forward pass, the
  gradient buffers of \<open>qf\<close>; then one step of the policy's optimizer.
\<close>

definition train_policy :: "'w collab \<Rightarrow> ddpg \<Rightarrow> heap \<Rightarrow> obs list \<Rightarrow> ddpg \<times> heap" where
  "train_policy c self h obs_val =
     (let (g_policy, g_qf) = policy_surr_grad c (get_param_values h (qf self))
                                (get_param_values h (policy self)) obs_val;
          h1 = zero_grad (policy_optimizer self) h;
          h2 = accumulate_grad (accumulate_grad h1 (policy self) g_policy) (qf self) g_qf;
          (opt, h3) = opt_step (policy_optimizer self) h2
      in (self\<lparr>policy_optimizer := opt\<rparr>, h3))"

text \<open>
  Lines 174--179 of \<open>do_training\<close>: the target critic on the target actor's actions,
  and the regression targets \<open>ys\<close>.
\<close>

definition regression_targets :: "'w collab \<Rightarrow> ddpg \<Rightarrow> heap \<Rightarrow> batch \<Rightarrow> error + float64 list" where
  "regression_targets c self h b =
     (let next_obs = next_observations b;
          next_actions = get_action c (get_param_values h (target_policy self)) next_obs;
          next_qvals = get_qval c (get_param_values h (target_qf self)) next_obs next_actions;
          terminals_mask = map (\<lambda>t. fsub (Fin 1) t) (terminals b)
      in case broadcast2 fmul (map (\<lambda>m. fmul m (discount self)) terminals_mask) next_qvals of
           Inl e \<Rightarrow> Inl e
         | Inr bootstrap \<Rightarrow> broadcast2 fadd (rewards b) bootstrap)"

text \<open>Lines 184--194 of \<open>do_training\<close>: both targets track their live network.\<close>

definition soft_target_sync :: "ddpg \<Rightarrow> heap \<Rightarrow> heap" where
  "soft_target_sync self h =
     (let h1 = set_param_values h (target_policy self)
                 (running_average_tensor_list
                    (get_param_values h (target_policy self))
                    (get_param_values h (policy self))
                    (soft_target_tau self))
      in set_param_values h1 (target_qf self)
           (running_average_tensor_list
              (get_param_values h1 (target_qf self))
              (get_param_values h1 (qf self))
              (soft_target_tau self)))"

definition do_training :: "'w collab \<Rightarrow> ddpg \<Rightarrow> heap \<Rightarrow> int \<Rightarrow> batch \<Rightarrow> error + ddpg \<times> heap" where
  "do_training c self h itr b =
     (case regression_targets c self h b of
        Inl e \<Rightarrow> Inl e
      | Inr ys \<Rightarrow>
          (let (self1, h1) = train_qf c self h ys (observations b) (actions b);
               (self2, h2) = train_policy c self1 h1 (observations b)
           in Inr (self2, soft_target_sync self2 h2)))"

subsection \<open>The training loop\<close>

text \<open>
  The calls the trainer makes on its collaborators are what an observer of the run sees;
  the loop state carries them as a log, in call order. \<open>RandomBatch n b\<close> records the
  call \<open>pool.random_batch(n)\<close> and the batch it returned, \<open>DoTraining i b\<close> the call
  \<open>self.do_training(i, b)\<close>. The logger's text output is left out.
\<close>

datatype event =
    PoolNew int nat nat
  | PopulateTask
  | EnvReset
  | EsReset
  | GetAction int obs
  | EnvStep act
  | EnvRender
  | AddSample obs act real bool
  | RandomBatch int batch
  | DoTraining int batch
  | SamplePaths int int
  | SaveItrParams int
  | EnvTerminate

text \<open>The trainer, the store, the collaborators' state, the log and the locals of \<open>train\<close>.\<close>

record 'w loop_state =
  st_self :: ddpg
  st_heap :: heap
  st_world :: 'w
  st_trace :: "event list"
  itr :: int
  path_length :: int
  path_return :: real
  terminal :: bool
  observation :: obs

text \<open>Lines 119--127: the episode boundary.\<close>

definition begin_episode :: "'w collab \<Rightarrow> 'w loop_state \<Rightarrow> 'w loop_state" where
  "begin_episode c s =
     (if terminal s then
        (let (ob, w1) = env_reset c (st_world s);
             w2 = es_reset c w1
         in s\<lparr>observation := ob,
              st_world := w2,
              st_trace := st_trace s @ [EnvReset, EsReset],
              st_self := (st_self s)\<lparr>es_path_returns := es_path_returns (st_self s) @ [path_return s]\<rparr>,
              path_length := 0,
              path_return := 0\<rparr>)
      else s)"

text \<open>
  Lines 129--137: choose an action, step the environment (which assigns the local
  \<open>terminal\<close>), count the step. The result is the state together with \<open>action\<close>,
  \<open>next_observation\<close> and \<open>reward\<close>.
\<close>

definition interact :: "'w collab \<Rightarrow> 'w loop_state \<Rightarrow> 'w loop_state \<times> act \<times> obs \<times> real" where
  "interact c s =
     (let (action, w1) = es_get_action c (itr s) (observation s)
                           (get_param_values (st_heap s) (policy (st_self s))) (st_world s);
          ((next_observation, reward, term), w2) = env_step c action w1;
          w3 = (if plot (st_self s) then env_render c w2 else w2)
      in (s\<lparr>st_world := w3,
             st_trace := st_trace s @ [GetAction (itr s) (observation s), EnvStep action]
                           @ (if plot (st_self s) then [EnvRender] else []),
             terminal := term,
             path_length := path_length s + 1,
             path_return := path_return s + reward\<rparr>,
          action, next_observation, reward))"

definition add_sample :: "'w collab \<Rightarrow> 'w loop_state \<Rightarrow> obs \<Rightarrow> act \<Rightarrow> real \<Rightarrow> bool \<Rightarrow> 'w loop_state" where
  "add_sample c s ob action reward term =
     s\<lparr>st_world := pool_add_sample c ob action reward term (st_world s),
       st_trace := st_trace s @ [AddSample ob action reward term]\<rparr>"

text \<open>Lines 139--147: the horizon, the replay pool, and the move to the next observation.\<close>

definition store_transition :: "'w collab \<Rightarrow> 'w loop_state \<Rightarrow> act \<Rightarrow> obs \<Rightarrow> real \<Rightarrow> 'w loop_state" where
  "store_transition c s action next_observation reward =
     (let s1 =
        (if \<not> terminal s \<and> path_length s \<ge> max_path_length (st_self s) then
           (let s' = s\<lparr>terminal := True\<rparr>
            in if include_horizon_terminal_transitions (st_self s')
               then add_sample c s' (observation s') action (reward * scale_reward (st_self s')) (terminal s')
               else s')
         else add_sample c s (observation s) action (reward * scale_reward (st_self s)) (terminal s))
      in s1\<lparr>observation := next_observation\<rparr>)"

text \<open>Lines 150--153: \<open>for update_itr in range(n)\<close>, a fresh batch for each update.\<close>

fun update_loop :: "'w collab \<Rightarrow> nat \<Rightarrow> 'w loop_state \<Rightarrow> error + 'w loop_state" where
  "update_loop c 0 s = Inr s"
| "update_loop c (Suc n) s =
     (let (b, w1) = pool_random_batch c (batch_size (st_self s)) (st_world s);
          s1 = s\<lparr>st_world := w1,
                 st_trace := st_trace s @ [RandomBatch (batch_size (st_self s)) b, DoTraining (itr s) b]\<rparr>
      in case do_training c (st_self s1) (st_heap s1) (itr s1) b of
           Inl e \<Rightarrow> Inl e
         | Inr (self', h') \<Rightarrow> update_loop c n (s1\<lparr>st_self := self', st_heap := h'\<rparr>))"

text \<open>Lines 149--155.\<close>

definition maybe_update :: "'w collab \<Rightarrow> 'w loop_state \<Rightarrow> error + 'w loop_state" where
  "maybe_update c s =
     (case (if pool_size c (st_world s) \<ge> min_pool_size (st_self s)
            then update_loop c (nat (n_updates_per_sample (st_self s))) s
            else Inr s) of
        Inl e \<Rightarrow> Inl e
      | Inr s1 \<Rightarrow> Inr (s1\<lparr>itr := itr s1 + 1\<rparr>))"

text \<open>Lines 119--147: from the episode boundary to the replay pool.\<close>

definition collect_transition :: "'w collab \<Rightarrow> 'w loop_state \<Rightarrow> 'w loop_state" where
  "collect_transition c s =
     (let (s1, action, next_observation, reward) = interact c (begin_episode c s)
      in store_transition c s1 action next_observation reward)"

text \<open>One pass through the body of the inner loop (lines 119--155).\<close>

definition train_step :: "'w collab \<Rightarrow> 'w loop_state \<Rightarrow> error + 'w loop_state" where
  "train_step c s = maybe_update c (collect_transition c s)"

fun train_steps :: "'w collab \<Rightarrow> nat \<Rightarrow> 'w loop_state \<Rightarrow> error + 'w loop_state" where
  "train_steps c 0 s = Inr s"
| "train_steps c (Suc n) s =
     (case train_step c s of Inl e \<Rightarrow> Inl e | Inr s1 \<Rightarrow> train_steps c n s1)"

text \<open>
  \<open>start_worker\<close>: the module never imports \<open>plotter\<close>, so the call under
  \<open>if self.plot\<close> raises \<open>NameError\<close>.
\<close>

definition start_worker :: "'w collab \<Rightarrow> 'w loop_state \<Rightarrow> error + 'w loop_state" where
  "start_worker c s =
     (let s1 = s\<lparr>st_world := populate_task c (get_param_values (st_heap s) (policy (st_self s))) (st_world s),
                 st_trace := st_trace s @ [PopulateTask]\<rparr>
      in if plot (st_self s1) then Inl NameError else Inr s1)"

definition evaluate :: "'w collab \<Rightarrow> 'w loop_state \<Rightarrow> int \<Rightarrow> 'w loop_state" where
  "evaluate c s epoch =
     s\<lparr>st_world := sample_paths c (get_param_values (st_heap s) (policy (st_self s)))
                      (eval_samples (st_self s)) (max_path_length (st_self s)) (st_world s),
       st_trace := st_trace s @ [SamplePaths (eval_samples (st_self s)) (max_path_length (st_self s))]\<rparr>"

text \<open>Lines 157--161: evaluation and snapshot, once the pool has warmed up.\<close>

definition end_epoch :: "'w collab \<Rightarrow> 'w loop_state \<Rightarrow> int \<Rightarrow> 'w loop_state" where
  "end_epoch c s epoch =
     (if pool_size c (st_world s) \<ge> min_pool_size (st_self s) then
        (let s1 = evaluate c s epoch
         in s1\<lparr>st_world := save_itr_params c epoch (st_world s1),
               st_trace := st_trace s1 @ [SaveItrParams epoch]\<rparr>)
      else s)"

text \<open>\<open>for epoch in range(n_epoch)\<close>: \<open>epochs c epoch k\<close> runs epochs \<open>epoch, ..., epoch + k - 1\<close>.\<close>

fun epochs :: "'w collab \<Rightarrow> int \<Rightarrow> nat \<Rightarrow> 'w loop_state \<Rightarrow> error + 'w loop_state" where
  "epochs c epoch 0 s = Inr s"
| "epochs c epoch (Suc k) s =
     (case train_steps c (nat (epoch_length (st_self s))) s of
        Inl e \<Rightarrow> Inl e
      | Inr s1 \<Rightarrow> epochs c (epoch + 1) k (end_epoch c s1 epoch))"

definition train :: "'w collab \<Rightarrow> ddpg \<Rightarrow> heap \<Rightarrow> 'w \<Rightarrow> error + 'w loop_state" where
  "train c self h w =
     (let s0 = \<lparr>st_self = self, st_heap = h,
                st_world = pool_new c (replay_pool_size self) (observation_dim self) (action_dim self) w,
                st_trace = [PoolNew (replay_pool_size self) (observation_dim self) (action_dim self)],
                itr = 0, path_length = 0, path_return = 0, terminal = False, observation = []\<rparr>
      in case start_worker c s0 of
           Inl e \<Rightarrow> Inl e
         | Inr s1 \<Rightarrow>
             (let (ob, w1) = env_reset c (st_world s1);
                  s2 = s1\<lparr>st_world := w1, st_trace := st_trace s1 @ [EnvReset], observation := ob\<rparr>
              in case epochs c 0 (nat (n_epoch self)) s2 of
                   Inl e \<Rightarrow> Inl e
                 | Inr s3 \<Rightarrow> Inr (s3\<lparr>st_world := env_terminate c (st_world s3),
                                     st_trace := st_trace s3 @ [EnvTerminate]\<rparr>)))"

text \<open>Constructing a trainer and running it.\<close>

definition run :: "'w collab \<Rightarrow> ddpg_args \<Rightarrow> heap \<Rightarrow> 'w \<Rightarrow> error + 'w loop_state" where
  "run c a h w = (let (self, h1) = DDPG_init c a h in train c self h1 w)"

subsection \<open>Reading the log\<close>

text \<open>The samples handed to \<open>pool.add_sample\<close>, in call order.\<close>

fun added_samples :: "event list \<Rightarrow> (obs \<times> act \<times> real \<times> bool) list" where
  "added_samples [] = []"
| "added_samples (AddSample ob a r t # es) = (ob, a, r, t) # added_samples es"
| "added_samples (e # es) = added_samples es"

text \<open>The calls of \<open>do_training\<close>, in call order.\<close>

fun training_calls :: "event list \<Rightarrow> (int \<times> batch) list" where
  "training_calls [] = []"
| "training_calls (DoTraining i b # es) = (i, b) # training_calls es"
| "training_calls (e # es) = training_calls es"

text \<open>The calls of \<open>pool.random_batch\<close> with the batches they returned, in call order.\<close>

fun batch_requests :: "event list \<Rightarrow> (int \<times> batch) list" where
  "batch_requests [] = []"
| "batch_requests (RandomBatch n b # es) = (n, b) # batch_requests es"
| "batch_requests (e # es) = batch_requests es"

text \<open>What a step appended to the log.\<close>

definition new_events :: "'w loop_state \<Rightarrow> 'w loop_state \<Rightarrow> event list" where
  "new_events s s' = drop (length (st_trace s)) (st_trace s')"

text \<open>
  The references of a trainer are in order when the four network objects exist and are
  pairwise different, and each optimizer is bound to the parameters of its live network.
\<close>

definition well_formed :: "ddpg \<Rightarrow> heap \<Rightarrow> bool" where
  "well_formed self h \<longleftrightarrow>
     policy self < length h \<and> qf self < length h \<and>
     target_policy self < length h \<and> target_qf self < length h \<and>
     distinct [policy self, qf self, target_policy self, target_qf self] \<and>
     opt_params (qf_optimizer self) = qf self \<and>
     opt_params (policy_optimizer self) = policy self"

text \<open>
  The update phase as the claim words it: \<open>k\<close> times, draw a batch of \<open>n\<close>
  transitions from the pool and call \<open>do_training\<close> on it with the iteration count
  \<open>i\<close>. The result is the trainer, the store and the collaborators' state after the
  last call, with the batches in the order they were drawn.
\<close>

fun repeat_updates :: "'w collab \<Rightarrow> int \<Rightarrow> int \<Rightarrow> nat \<Rightarrow> ddpg \<times> heap \<times> 'w \<Rightarrow>
    error + (ddpg \<times> heap \<times> 'w) \<times> batch list" where
  "repeat_updates c i n 0 x = Inr (x, [])"
| "repeat_updates c i n (Suc k) (self, h, w) =
     (let (b, w1) = pool_random_batch c n w
      in case do_training c self h i b of
           Inl e \<Rightarrow> Inl e
         | Inr (self', h') \<Rightarrow>
             (case repeat_updates c i n k (self', h', w1) of
                Inl e \<Rightarrow> Inl e
              | Inr (x, bs) \<Rightarrow> Inr (x, b # bs)))"

text \<open>
  A trainer and store reached from another by calls of \<open>do_training\<close> that returned
  and by changes to the trainer's list of path returns, and by nothing else.
\<close>

inductive trained_from :: "'w collab \<Rightarrow> ddpg \<times> heap \<Rightarrow> ddpg \<times> heap \<Rightarrow> bool" for c x where
  start: "trained_from c x x"
| update: "trained_from c x (self, h) \<Longrightarrow> do_training c self h i b = Inr (self', h') \<Longrightarrow>
           trained_from c x (self', h')"
| path_return: "trained_from c x (self, h) \<Longrightarrow>
           trained_from c x (self\<lparr>es_path_returns := l\<rparr>, h)"

text \<open>Two lists of tensors of the same shapes.\<close>

definition same_shape :: "tensor list \<Rightarrow> tensor list \<Rightarrow> bool" where
  "same_shape xs ys \<longleftrightarrow> map length xs = map length ys"

subsection \<open>A small scenario\<close>

text \<open>
  Concrete collaborators on which the definitions can be evaluated: an environment that
  never terminates by itself and pays reward 2, a pool that keeps every sample in a list
  and always hands out the same batch of two transitions (one terminal, one not),
  one-parameter networks (the policy adds its parameter to the observation, the critic
  multiplies the sum of observation and action by its parameter), and plain gradient
  descent as the update method. A second critic has diverged and returns infinity.
\<close>

definition head0 :: "real list \<Rightarrow> real" where
  "head0 xs = (case xs of [] \<Rightarrow> 0 | x # _ \<Rightarrow> x)"

definition param0 :: "tensor list \<Rightarrow> real" where
  "param0 ps = (case ps of [] \<Rightarrow> 0 | p # _ \<Rightarrow> head0 p)"

type_synonym ex_world = "(obs \<times> act \<times> real \<times> bool) list \<times> nat"

definition ex_sgd :: update_method where
  "ex_sgd rate wd st ps g =
     (case g of None \<Rightarrow> (ps, st)
      | Some gs \<Rightarrow> (map2 (map2 (\<lambda>p d. p - rate * d)) ps gs, st))"

definition ex_batch :: batch where
  "ex_batch = \<lparr>observations = [[0], [1]], actions = [[1], [1]], rewards = [Fin 2, Fin 3],
               next_observations = [[1], [2]], terminals = [Fin 0, Fin 1]\<rparr>"

definition ex_collab :: "ex_world collab" where
  "ex_collab =
     \<lparr>env_observation_shape = [1],
      env_action_shape = [1],
      env_reset = (\<lambda>w. ([0], w)),
      env_step = (\<lambda>a w. (([real (Suc (snd w))], 2, False), (fst w, Suc (snd w)))),
      env_render = (\<lambda>w. w),
      env_terminate = (\<lambda>w. w),
      es_reset = (\<lambda>w. w),
      es_get_action = (\<lambda>i ob ps w. ([1], w)),
      pool_new = (\<lambda>n od ad w. ([], snd w)),
      pool_add_sample = (\<lambda>ob a r t w. (fst w @ [(ob, a, r, t)], snd w)),
      pool_size = (\<lambda>w. int (length (fst w))),
      pool_random_batch = (\<lambda>n w. (ex_batch, w)),
      populate_task = (\<lambda>ps w. w),
      sample_paths = (\<lambda>ps n m w. w),
      save_itr_params = (\<lambda>n w. w),
      get_action = (\<lambda>ps os. map (\<lambda>ob. [param0 ps + head0 ob]) os),
      get_qval = (\<lambda>ps os as. map2 (\<lambda>ob a. Fin (param0 ps * (head0 ob + head0 a))) os as),
      qf_loss_grad = (\<lambda>ps os as ys. [[1]]),
      policy_surr_grad = (\<lambda>qs ps os. ([[1]], [[1]]))\<rparr>"

definition ex_collab_inf :: "ex_world collab" where
  "ex_collab_inf = ex_collab\<lparr>get_qval := (\<lambda>ps os as. map (\<lambda>ob. PInf) os)\<rparr>"

definition ex_args :: ddpg_args where
  "ex_args =
     \<lparr>arg_policy = 0,
      arg_qf = 1,
      arg_batch_size = 2,
      arg_n_epochs = 1,
      arg_epoch_length = 2,
      arg_min_pool_size = 1,
      arg_replay_pool_size = 10,
      arg_discount = Fin (1 / 2),
      arg_max_path_length = 2,
      arg_qf_weight_decay = 0,
      arg_qf_update_method = ex_sgd,
      arg_qf_learning_rate = 1 / 2,
      arg_policy_weight_decay = 1 / 100,
      arg_policy_update_method = ex_sgd,
      arg_policy_learning_rate = 1 / 4,
      arg_eval_samples = 10,
      arg_soft_target = True,
      arg_soft_target_tau = 1 / 4,
      arg_n_updates_per_sample = 2,
      arg_scale_reward = 3,
      arg_include_horizon_terminal_transitions = False,
      arg_plot = False,
      arg_pause_for_plot = False\<rparr>"

definition ex_heap0 :: heap where
  "ex_heap0 = [\<lparr>param_values = [[1]], grad = None\<rparr>, \<lparr>param_values = [[2]], grad = None\<rparr>]"

definition ex_self :: ddpg where
  "ex_self = fst (DDPG_init ex_collab ex_args ex_heap0)"

definition ex_heap :: heap where
  "ex_heap = snd (DDPG_init ex_collab ex_args ex_heap0)"

text \<open>A loop state in the middle of an episode, and one just after a terminal transition.\<close>

definition ex_state :: "bool \<Rightarrow> bool \<Rightarrow> ex_world loop_state" where
  "ex_state flag term =
     \<lparr>st_self = ex_self\<lparr>include_horizon_terminal_transitions := flag\<rparr>,
      st_heap = ex_heap,
      st_world = ([], 0),
      st_trace = [],
      itr = 5,
      path_length = 1,
      path_return = 2,
      terminal = term,
      observation = [7]\<rparr>"

section \<open>Properties\<close>

subsection \<open>The store\<close>

lemma length_set_param_values [simp]: "length (set_param_values h r vs) = length h"
  by (simp add: set_param_values_def)

lemma length_accumulate_grad [simp]: "length (accumulate_grad h r ds) = length h"
  by (simp add: accumulate_grad_def)

lemma length_zero_grad [simp]: "length (zero_grad opt h) = length h"
  by (simp add: zero_grad_def)

lemma length_opt_step [simp]: "length (snd (opt_step opt h)) = length h"
  by (simp add: opt_step_def Let_def split: prod.splits)

lemma opt_params_opt_step [simp]: "opt_params (fst (opt_step opt h)) = opt_params opt"
  by (simp add: opt_step_def Let_def split: prod.splits)

lemma params_accumulate_grad [simp]:
  "get_param_values (accumulate_grad h r ds) r' = get_param_values h r'"
  by (cases "r < length h"; cases "r' = r")
     (simp_all add: accumulate_grad_def get_param_values_def list_update_beyond)

lemma params_zero_grad [simp]:
  "get_param_values (zero_grad opt h) r' = get_param_values h r'"
  by (cases "opt_params opt < length h"; cases "r' = opt_params opt")
     (simp_all add: zero_grad_def get_param_values_def list_update_beyond)

lemma params_opt_step_other:
  "r' \<noteq> opt_params opt \<Longrightarrow> get_param_values (snd (opt_step opt h)) r' = get_param_values h r'"
  by (simp add: opt_step_def Let_def get_param_values_def split: prod.splits)

lemma params_opt_step_same:
  "opt_params opt < length h \<Longrightarrow>
   get_param_values (snd (opt_step opt h)) (opt_params opt) =
   fst (opt_method opt (opt_lr opt) (opt_weight_decay opt) (opt_state opt)
          (get_param_values h (opt_params opt)) (grad (h ! opt_params opt)))"
  by (simp add: opt_step_def Let_def get_param_values_def split: prod.splits)

lemma params_set_param_values_other:
  "r' \<noteq> r \<Longrightarrow> get_param_values (set_param_values h r vs) r' = get_param_values h r'"
  by (simp add: set_param_values_def get_param_values_def)

lemma params_set_param_values_same:
  "r < length h \<Longrightarrow> get_param_values (set_param_values h r vs) r = vs"
  by (simp add: set_param_values_def get_param_values_def)

subsection \<open>regression targets\<close>

lemma broadcast2_same_length:
  "length xs = length ys \<Longrightarrow> broadcast2 f xs ys = Inr (map2 f xs ys)"
  by (simp add: broadcast2_def)

lemma fadd_zero [simp]: "fadd x (Fin 0) = x"
  by (cases x) simp_all

lemma regression_targets_eq:
  assumes "length (terminals b) = length (rewards b)"
      and "length (get_qval c (get_param_values h (target_qf self)) (next_observations b)
                     (get_action c (get_param_values h (target_policy self)) (next_observations b))) =
           length (rewards b)"
  shows "regression_targets c self h b =
         Inr (map (\<lambda>i. fadd (rewards b ! i)
                         (fmul (fmul (fsub (Fin 1) (terminals b ! i)) (discount self))
                            (get_qval c (get_param_values h (target_qf self)) (next_observations b)
                               (get_action c (get_param_values h (target_policy self))
                                  (next_observations b)) ! i)))
                [0..<length (rewards b)])"
proof -
  let ?m = "map (\<lambda>m. fmul m (discount self)) (map (\<lambda>t. fsub (Fin 1) t) (terminals b))"
  let ?q = "get_qval c (get_param_values h (target_qf self)) (next_observations b)
              (get_action c (get_param_values h (target_policy self)) (next_observations b))"
  have 1: "broadcast2 fmul ?m ?q = Inr (map2 fmul ?m ?q)"
    using assms by (simp add: broadcast2_same_length)
  have 2: "broadcast2 fadd (rewards b) (map2 fmul ?m ?q) = Inr (map2 fadd (rewards b) (map2 fmul ?m ?q))"
    using assms by (simp add: broadcast2_same_length)
  have 3: "map2 fadd (rewards b) (map2 fmul ?m ?q) =
           map (\<lambda>i. fadd (rewards b ! i) (fmul (fmul (fsub (Fin 1) (terminals b ! i)) (discount self)) (?q ! i)))
             [0..<length (rewards b)]"
    using assms by (auto intro!: nth_equalityI)
  show ?thesis
    unfolding regression_targets_def Let_def using 1 2 3 by simp
qed

subsection \<open>train_qf, train_policy\<close>

lemma train_qf_self:
  "fst (train_qf c self h ys os as) = self\<lparr>qf_optimizer := fst (opt_step (qf_optimizer self)
      (accumulate_grad (zero_grad (qf_optimizer self) h) (qf self)
         (qf_loss_grad c (get_param_values h (qf self)) os as ys)))\<rparr>"
  by (simp add: train_qf_def Let_def split: prod.splits)

lemma train_qf_length [simp]: "length (snd (train_qf c self h ys os as)) = length h"
proof -
  have "snd (train_qf c self h ys os as) = snd (opt_step (qf_optimizer self)
      (accumulate_grad (zero_grad (qf_optimizer self) h) (qf self)
         (qf_loss_grad c (get_param_values h (qf self)) os as ys)))"
    by (simp add: train_qf_def Let_def split: prod.splits)
  then show ?thesis by simp
qed

lemma train_qf_frame:
  "r \<noteq> opt_params (qf_optimizer self) \<Longrightarrow>
   get_param_values (snd (train_qf c self h ys os as)) r = get_param_values h r"
proof -
  assume r: "r \<noteq> opt_params (qf_optimizer self)"
  have "snd (train_qf c self h ys os as) = snd (opt_step (qf_optimizer self)
      (accumulate_grad (zero_grad (qf_optimizer self) h) (qf self)
         (qf_loss_grad c (get_param_values h (qf self)) os as ys)))"
    by (simp add: train_qf_def Let_def split: prod.splits)
  then show ?thesis using r by (simp add: params_opt_step_other)
qed

lemma train_policy_snd:
  "snd (train_policy c self h os) = snd (opt_step (policy_optimizer self)
      (accumulate_grad
         (accumulate_grad (zero_grad (policy_optimizer self) h) (policy self)
            (fst (policy_surr_grad c (get_param_values h (qf self)) (get_param_values h (policy self)) os)))
         (qf self)
         (snd (policy_surr_grad c (get_param_values h (qf self)) (get_param_values h (policy self)) os))))"
  by (simp add: train_policy_def Let_def split: prod.splits)

lemma train_policy_fst:
  "fst (train_policy c self h os) = self\<lparr>policy_optimizer := fst (opt_step (policy_optimizer self)
      (accumulate_grad
         (accumulate_grad (zero_grad (policy_optimizer self) h) (policy self)
            (fst (policy_surr_grad c (get_param_values h (qf self)) (get_param_values h (policy self)) os)))
         (qf self)
         (snd (policy_surr_grad c (get_param_values h (qf self)) (get_param_values h (policy self)) os))))\<rparr>"
  by (simp add: train_policy_def Let_def split: prod.splits)

lemma train_policy_length [simp]: "length (snd (train_policy c self h os)) = length h"
  by (simp add: train_policy_snd)

lemma train_policy_frame:
  "r \<noteq> opt_params (policy_optimizer self) \<Longrightarrow>
   get_param_values (snd (train_policy c self h os)) r = get_param_values h r"
  by (simp add: train_policy_snd params_opt_step_other)

lemma well_formed_train_qf:
  "well_formed self h \<Longrightarrow> well_formed (fst (train_qf c self h ys os as)) (snd (train_qf c self h ys os as))"
  by (simp add: well_formed_def train_qf_self)

lemma well_formed_train_policy:
  "well_formed self h \<Longrightarrow> well_formed (fst (train_policy c self h os)) (snd (train_policy c self h os))"
  by (simp add: well_formed_def train_policy_fst)

subsection \<open>soft_target_sync\<close>

lemma soft_target_sync_length [simp]: "length (soft_target_sync self h) = length h"
  by (simp add: soft_target_sync_def Let_def)

lemma soft_target_sync_live:
  "r \<noteq> target_policy self \<Longrightarrow> r \<noteq> target_qf self \<Longrightarrow>
   get_param_values (soft_target_sync self h) r = get_param_values h r"
  by (simp add: soft_target_sync_def Let_def params_set_param_values_other)

lemma soft_target_sync_policy:
  "well_formed self h \<Longrightarrow>
   get_param_values (soft_target_sync self h) (target_policy self) =
   running_average_tensor_list (get_param_values h (target_policy self))
     (get_param_values h (policy self)) (soft_target_tau self)"
  by (simp add: soft_target_sync_def Let_def well_formed_def
        params_set_param_values_other params_set_param_values_same)

lemma soft_target_sync_qf:
  "well_formed self h \<Longrightarrow>
   get_param_values (soft_target_sync self h) (target_qf self) =
   running_average_tensor_list (get_param_values h (target_qf self))
     (get_param_values h (qf self)) (soft_target_tau self)"
  by (simp add: soft_target_sync_def Let_def well_formed_def
        params_set_param_values_other params_set_param_values_same)

subsection \<open>do_training\<close>

lemma do_training_Inr:
  assumes "do_training c self h i b = Inr (self', h')"
  shows "\<exists>ys. regression_targets c self h b = Inr ys \<and>
          self' = fst (train_policy c (fst (train_qf c self h ys (observations b) (actions b)))
                         (snd (train_qf c self h ys (observations b) (actions b))) (observations b)) \<and>
          h' = soft_target_sync self'
                 (snd (train_policy c (fst (train_qf c self h ys (observations b) (actions b)))
                         (snd (train_qf c self h ys (observations b) (actions b))) (observations b)))"
  using assms by (auto simp: do_training_def Let_def split: sum.splits prod.splits)

lemma do_training_self:
  assumes "do_training c self h i b = Inr (self', h')"
  shows "\<exists>q p. self' = self\<lparr>qf_optimizer := q, policy_optimizer := p\<rparr> \<and>
               opt_params q = opt_params (qf_optimizer self) \<and>
               opt_params p = opt_params (policy_optimizer self)"
proof -
  from do_training_Inr [OF assms] obtain ys where
    s: "self' = fst (train_policy c (fst (train_qf c self h ys (observations b) (actions b)))
                         (snd (train_qf c self h ys (observations b) (actions b))) (observations b))"
    by blast
  show ?thesis
    apply (rule exI [of _ "qf_optimizer self'"])
    apply (rule exI [of _ "policy_optimizer self'"])
    unfolding s train_policy_fst train_qf_self
    apply simp
    done
qed

lemma do_training_length:
  assumes "do_training c self h i b = Inr (self', h')"
  shows "length h' = length h"
  using do_training_Inr [OF assms] by auto

lemma do_training_well_formed:
  assumes "do_training c self h i b = Inr (self', h')" and "well_formed self h"
  shows "well_formed self' h'"
proof -
  from do_training_self [OF assms(1)] obtain q p where
    "self' = self\<lparr>qf_optimizer := q, policy_optimizer := p\<rparr>"
    "opt_params q = opt_params (qf_optimizer self)"
    "opt_params p = opt_params (policy_optimizer self)" by blast
  then show ?thesis using assms(2) do_training_length [OF assms(1)]
    by (simp add: well_formed_def)
qed

text \<open>The live parameters after the two gradient steps, the targets before the sync.\<close>

lemma do_training_targets:
  assumes d: "do_training c self h i b = Inr (self', h')" and wf: "well_formed self h"
  shows "get_param_values h' (target_policy self) =
           running_average_tensor_list (get_param_values h (target_policy self))
             (get_param_values h' (policy self)) (soft_target_tau self)"
    and "get_param_values h' (target_qf self) =
           running_average_tensor_list (get_param_values h (target_qf self))
             (get_param_values h' (qf self)) (soft_target_tau self)"
proof -
  from do_training_Inr [OF d] obtain ys where
    s: "self' = fst (train_policy c (fst (train_qf c self h ys (observations b) (actions b)))
                         (snd (train_qf c self h ys (observations b) (actions b))) (observations b))"
    and h': "h' = soft_target_sync self'
                 (snd (train_policy c (fst (train_qf c self h ys (observations b) (actions b)))
                         (snd (train_qf c self h ys (observations b) (actions b))) (observations b)))"
    by blast
  let ?q = "train_qf c self h ys (observations b) (actions b)"
  let ?p = "train_policy c (fst ?q) (snd ?q) (observations b)"
  have wfq: "well_formed (fst ?q) (snd ?q)" using wf by (rule well_formed_train_qf)
  have wfp: "well_formed (fst ?p) (snd ?p)" using wfq by (rule well_formed_train_policy)
  have refs: "target_policy self' = target_policy self" "target_qf self' = target_qf self"
    "policy self' = policy self" "qf self' = qf self" "soft_target_tau self' = soft_target_tau self"
    unfolding s by (simp_all add: train_policy_fst train_qf_self)
  have wf': "well_formed self' (snd ?p)" using wfp s by simp
  have d4: "policy self \<noteq> target_policy self" "policy self \<noteq> target_qf self"
    "qf self \<noteq> target_policy self" "qf self \<noteq> target_qf self"
    "target_policy self \<noteq> opt_params (qf_optimizer self)"
    "target_policy self \<noteq> opt_params (policy_optimizer self)"
    "target_qf self \<noteq> opt_params (qf_optimizer self)"
    "target_qf self \<noteq> opt_params (policy_optimizer self)"
    using wf by (auto simp: well_formed_def)
  have tp: "get_param_values (snd ?p) (target_policy self) = get_param_values h (target_policy self)"
    using d4 by (simp add: train_policy_frame train_qf_frame train_qf_self)
  have tq: "get_param_values (snd ?p) (target_qf self) = get_param_values h (target_qf self)"
    using d4 by (simp add: train_policy_frame train_qf_frame train_qf_self)
  have lp: "get_param_values h' (policy self) = get_param_values (snd ?p) (policy self)"
    unfolding h' using d4 refs by (simp add: soft_target_sync_live)
  have lq: "get_param_values h' (qf self) = get_param_values (snd ?p) (qf self)"
    unfolding h' using d4 refs by (simp add: soft_target_sync_live)
  show "get_param_values h' (target_policy self) =
           running_average_tensor_list (get_param_values h (target_policy self))
             (get_param_values h' (policy self)) (soft_target_tau self)"
    unfolding lp unfolding h' using soft_target_sync_policy [OF wf'] refs tp by simp
  show "get_param_values h' (target_qf self) =
           running_average_tensor_list (get_param_values h (target_qf self))
             (get_param_values h' (qf self)) (soft_target_tau self)"
    unfolding lq unfolding h' using soft_target_sync_qf [OF wf'] refs tq by simp
qed

subsection \<open>running average\<close>

lemma running_average_tensor_nth:
  "j < length b \<Longrightarrow> j < length a \<Longrightarrow>
   running_average_tensor b a rate ! j = rate * a ! j + (1 - rate) * b ! j"
  by (simp add: running_average_tensor_def)

lemma running_average_tensor_list_nth:
  "i < length bs \<Longrightarrow> i < length as \<Longrightarrow>
   running_average_tensor_list bs as rate ! i = running_average_tensor (bs ! i) (as ! i) rate"
  by (simp add: running_average_tensor_list_def)

lemma running_average_tensor_one:
  "length b = length a \<Longrightarrow> running_average_tensor b a 1 = a"
  by (auto simp: running_average_tensor_def intro!: nth_equalityI)

lemma running_average_tensor_zero:
  "length b = length a \<Longrightarrow> running_average_tensor b a 0 = b"
  by (auto simp: running_average_tensor_def intro!: nth_equalityI)

lemma same_shape_nth:
  "same_shape bs as \<Longrightarrow> length bs = length as \<and> (\<forall>i<length bs. length (bs ! i) = length (as ! i))"
  unfolding same_shape_def
  by (metis length_map nth_map)

lemma running_average_tensor_list_one:
  assumes "same_shape bs as"
  shows "running_average_tensor_list bs as 1 = as"
  using same_shape_nth [OF assms]
  by (auto simp: running_average_tensor_list_def running_average_tensor_one intro!: nth_equalityI)

lemma running_average_tensor_list_zero:
  assumes "same_shape bs as"
  shows "running_average_tensor_list bs as 0 = bs"
  using same_shape_nth [OF assms]
  by (auto simp: running_average_tensor_list_def running_average_tensor_zero intro!: nth_equalityI)

subsection \<open>Evaluating the scenario\<close>

lemma ex_init_eval:
  "DDPG_init ex_collab ex_args ex_heap0 =
     (ex_self, [\<lparr>param_values = [[1]], grad = None\<rparr>, \<lparr>param_values = [[2]], grad = None\<rparr>,
                \<lparr>param_values = [[2]], grad = None\<rparr>, \<lparr>param_values = [[1]], grad = None\<rparr>])"
  by (simp add: ex_self_def DDPG_init_def deepcopy_def ex_heap0_def ex_args_def Let_def)

lemma ex_heap_eval:
  "ex_heap = [\<lparr>param_values = [[1]], grad = None\<rparr>, \<lparr>param_values = [[2]], grad = None\<rparr>,
              \<lparr>param_values = [[2]], grad = None\<rparr>, \<lparr>param_values = [[1]], grad = None\<rparr>]"
  by (simp add: ex_heap_def ex_init_eval)

lemma ex_self_refs:
  "policy ex_self = 0" "qf ex_self = 1" "target_qf ex_self = 2" "target_policy ex_self = 3"
  "opt_params (qf_optimizer ex_self) = 1" "opt_params (policy_optimizer ex_self) = 0"
  by (simp_all add: ex_self_def DDPG_init_def deepcopy_def ex_heap0_def ex_args_def Let_def new_optimizer_def)

lemma ex_self_config:
  "discount ex_self = Fin (1 / 2)" "soft_target_tau ex_self = 1 / 4" "scale_reward ex_self = 3"
  "max_path_length ex_self = 2" "min_pool_size ex_self = 1" "n_updates_per_sample ex_self = 2"
  "batch_size ex_self = 2" "plot ex_self = False"
  by (simp_all add: ex_self_def DDPG_init_def deepcopy_def ex_heap0_def ex_args_def Let_def)

lemma ex_self_optimizers:
  "qf_optimizer ex_self = \<lparr>opt_params = 1, opt_method = ex_sgd, opt_lr = 1 / 2,
                             opt_weight_decay = Some 0, opt_state = []\<rparr>"
  "policy_optimizer ex_self = \<lparr>opt_params = 0, opt_method = ex_sgd, opt_lr = 1 / 4,
                             opt_weight_decay = None, opt_state = []\<rparr>"
  by (simp_all add: ex_self_def DDPG_init_def deepcopy_def ex_heap0_def ex_args_def Let_def new_optimizer_def)

lemma ex_well_formed: "well_formed ex_self ex_heap"
  by (simp add: well_formed_def ex_self_refs ex_heap_eval)

lemma ex_next_qvals:
  "get_qval ex_collab (get_param_values ex_heap (target_qf ex_self)) (next_observations ex_batch)
     (get_action ex_collab (get_param_values ex_heap (target_policy ex_self)) (next_observations ex_batch)) =
   [Fin 6, Fin 10]"
  by (simp add: ex_collab_def ex_batch_def ex_self_refs ex_heap_eval get_param_values_def
        param0_def head0_def)

lemma ex_regression_targets: "regression_targets ex_collab ex_self ex_heap ex_batch = Inr [Fin 5, Fin 3]"
  unfolding regression_targets_def Let_def ex_next_qvals
  by (simp add: broadcast2_def ex_self_config ex_batch_def fsub_def)

lemma ex_train_qf:
  "train_qf ex_collab ex_self ex_heap [Fin 5, Fin 3] (observations ex_batch) (actions ex_batch) =
     (ex_self, [\<lparr>param_values = [[1]], grad = None\<rparr>, \<lparr>param_values = [[3 / 2]], grad = Some [[1]]\<rparr>,
                \<lparr>param_values = [[2]], grad = None\<rparr>, \<lparr>param_values = [[1]], grad = None\<rparr>])"
  by (simp add: train_qf_def Let_def ex_self_refs ex_self_optimizers ex_heap_eval zero_grad_def
        accumulate_grad_def opt_step_def ex_sgd_def ex_collab_def get_param_values_def)

lemma ex_train_policy:
  "train_policy ex_collab ex_self
     [\<lparr>param_values = [[1]], grad = None\<rparr>, \<lparr>param_values = [[3 / 2]], grad = Some [[1]]\<rparr>,
      \<lparr>param_values = [[2]], grad = None\<rparr>, \<lparr>param_values = [[1]], grad = None\<rparr>]
     (observations ex_batch) =
     (ex_self, [\<lparr>param_values = [[3 / 4]], grad = Some [[1]]\<rparr>, \<lparr>param_values = [[3 / 2]], grad = Some [[2]]\<rparr>,
                \<lparr>param_values = [[2]], grad = None\<rparr>, \<lparr>param_values = [[1]], grad = None\<rparr>])"
  by (simp add: train_policy_def Let_def ex_self_refs ex_self_optimizers zero_grad_def
        accumulate_grad_def opt_step_def ex_sgd_def ex_collab_def get_param_values_def tensor_list_add_def)

lemma ex_soft_target_sync:
  "soft_target_sync ex_self
     [\<lparr>param_values = [[3 / 4]], grad = Some [[1]]\<rparr>, \<lparr>param_values = [[3 / 2]], grad = Some [[2]]\<rparr>,
      \<lparr>param_values = [[2]], grad = None\<rparr>, \<lparr>param_values = [[1]], grad = None\<rparr>] =
     [\<lparr>param_values = [[3 / 4]], grad = Some [[1]]\<rparr>, \<lparr>param_values = [[3 / 2]], grad = Some [[2]]\<rparr>,
      \<lparr>param_values = [[15 / 8]], grad = None\<rparr>, \<lparr>param_values = [[15 / 16]], grad = None\<rparr>]"
  by (simp add: soft_target_sync_def Let_def ex_self_refs ex_self_config set_param_values_def
        get_param_values_def running_average_tensor_list_def running_average_tensor_def)

lemma ex_do_training:
  "do_training ex_collab ex_self ex_heap i ex_batch =
     Inr (ex_self, [\<lparr>param_values = [[3 / 4]], grad = Some [[1]]\<rparr>, \<lparr>param_values = [[3 / 2]], grad = Some [[2]]\<rparr>,
      \<lparr>param_values = [[15 / 8]], grad = None\<rparr>, \<lparr>param_values = [[15 / 16]], grad = None\<rparr>])"
  by (simp add: do_training_def ex_regression_targets ex_train_qf ex_train_policy ex_soft_target_sync)

subsection \<open>The log\<close>

lemma added_samples_append [simp]: "added_samples (xs @ ys) = added_samples xs @ added_samples ys"
  by (induction xs rule: added_samples.induct) simp_all

lemma training_calls_append [simp]: "training_calls (xs @ ys) = training_calls xs @ training_calls ys"
  by (induction xs rule: training_calls.induct) simp_all

lemma batch_requests_append [simp]: "batch_requests (xs @ ys) = batch_requests xs @ batch_requests ys"
  by (induction xs rule: batch_requests.induct) simp_all

lemma added_samples_updates [simp]:
  "added_samples (concat (map (\<lambda>b. [RandomBatch n b, DoTraining i b]) bs)) = []"
  by (induction bs) simp_all

lemma training_calls_updates [simp]:
  "training_calls (concat (map (\<lambda>b. [RandomBatch n b, DoTraining i b]) bs)) = map (\<lambda>b. (i, b)) bs"
  by (induction bs) simp_all

lemma batch_requests_updates [simp]:
  "batch_requests (concat (map (\<lambda>b. [RandomBatch n b, DoTraining i b]) bs)) = map (\<lambda>b. (n, b)) bs"
  by (induction bs) simp_all

subsection \<open>The episode boundary\<close>

lemma begin_episode_running: "\<not> terminal s \<Longrightarrow> begin_episode c s = s"
  by (simp add: begin_episode_def)

lemma begin_episode_terminal:
  assumes "terminal s"
  shows "path_length (begin_episode c s) = 0"
    and "path_return (begin_episode c s) = 0"
    and "observation (begin_episode c s) = fst (env_reset c (st_world s))"
    and "st_trace (begin_episode c s) = st_trace s @ [EnvReset, EsReset]"
    and "st_world (begin_episode c s) = es_reset c (snd (env_reset c (st_world s)))"
    and "es_path_returns (st_self (begin_episode c s)) = es_path_returns (st_self s) @ [path_return s]"
  using assms by (simp_all add: begin_episode_def Let_def split: prod.splits)

lemma begin_episode_keeps:
  "st_heap (begin_episode c s) = st_heap s"
  "itr (begin_episode c s) = itr s"
  "\<exists>l. st_self (begin_episode c s) = (st_self s)\<lparr>es_path_returns := l\<rparr>"
  "st_trace (begin_episode c s) = st_trace s @ (if terminal s then [EnvReset, EsReset] else [])"
proof -
  show "st_heap (begin_episode c s) = st_heap s" "itr (begin_episode c s) = itr s"
    "st_trace (begin_episode c s) = st_trace s @ (if terminal s then [EnvReset, EsReset] else [])"
    by (simp_all add: begin_episode_def Let_def split: prod.splits)
  show "\<exists>l. st_self (begin_episode c s) = (st_self s)\<lparr>es_path_returns := l\<rparr>"
  proof (cases "terminal s")
    case True
    then have "st_self (begin_episode c s) =
                 (st_self s)\<lparr>es_path_returns := es_path_returns (st_self s) @ [path_return s]\<rparr>"
      by (simp add: begin_episode_def Let_def split: prod.splits)
    then show ?thesis by blast
  next
    case False
    then have "st_self (begin_episode c s) = (st_self s)\<lparr>es_path_returns := es_path_returns (st_self s)\<rparr>"
      by (simp add: begin_episode_def)
    then show ?thesis by blast
  qed
qed

subsection \<open>Acting\<close>

lemma interact_fields:
  assumes "interact c s = (s1, a, ob', r)"
  shows "st_self s1 = st_self s" and "st_heap s1 = st_heap s" and "itr s1 = itr s"
    and "observation s1 = observation s"
    and "path_length s1 = path_length s + 1"
    and "path_return s1 = path_return s + r"
    and "st_trace s1 = st_trace s @ [GetAction (itr s) (observation s), EnvStep a]
                         @ (if plot (st_self s) then [EnvRender] else [])"
  using assms by (auto simp: interact_def Let_def split: prod.splits)

lemma interact_outputs:
  assumes "interact c s = (s1, a, ob', r)"
  shows "a = fst (es_get_action c (itr s) (observation s)
                    (get_param_values (st_heap s) (policy (st_self s))) (st_world s))"
    and "(ob', r, terminal s1) =
           fst (env_step c a (snd (es_get_action c (itr s) (observation s)
                  (get_param_values (st_heap s) (policy (st_self s))) (st_world s))))"
  using assms by (auto simp: interact_def Let_def split: prod.splits)

lemma interact_world:
  assumes "interact c s = (s1, a, ob', r)"
  shows "st_world s1 = (if plot (st_self s)
            then env_render c (snd (env_step c a (snd (es_get_action c (itr s) (observation s)
                    (get_param_values (st_heap s) (policy (st_self s))) (st_world s)))))
            else snd (env_step c a (snd (es_get_action c (itr s) (observation s)
                    (get_param_values (st_heap s) (policy (st_self s))) (st_world s)))))"
  using assms by (auto simp: interact_def Let_def split: prod.splits)

subsection \<open>Storing\<close>

lemma store_transition_fields:
  "st_self (store_transition c s a ob' r) = st_self s"
  "st_heap (store_transition c s a ob' r) = st_heap s"
  "itr (store_transition c s a ob' r) = itr s"
  "path_length (store_transition c s a ob' r) = path_length s"
  "path_return (store_transition c s a ob' r) = path_return s"
  "observation (store_transition c s a ob' r) = ob'"
  "terminal (store_transition c s a ob' r) = (terminal s \<or> path_length s \<ge> max_path_length (st_self s))"
  by (auto simp: store_transition_def add_sample_def Let_def)

lemma store_transition_trace:
  "st_trace (store_transition c s a ob' r) =
     st_trace s @
       (if \<not> terminal s \<and> path_length s \<ge> max_path_length (st_self s) \<and>
           \<not> include_horizon_terminal_transitions (st_self s)
        then []
        else [AddSample (observation s) a (r * scale_reward (st_self s))
                (terminal s \<or> path_length s \<ge> max_path_length (st_self s))])"
  by (auto simp: store_transition_def add_sample_def Let_def)

lemma store_transition_world:
  "st_world (store_transition c s a ob' r) =
       (if \<not> terminal s \<and> path_length s \<ge> max_path_length (st_self s) \<and>
           \<not> include_horizon_terminal_transitions (st_self s)
        then st_world s
        else pool_add_sample c (observation s) a (r * scale_reward (st_self s))
                (terminal s \<or> path_length s \<ge> max_path_length (st_self s)) (st_world s))"
  by (auto simp: store_transition_def add_sample_def Let_def)

subsection \<open>Updating\<close>

lemma update_loop_Inr:
  "update_loop c n s = Inr s' \<Longrightarrow>
     (\<exists>bs. length bs = n \<and>
           st_trace s' = st_trace s @
             concat (map (\<lambda>b. [RandomBatch (batch_size (st_self s)) b, DoTraining (itr s) b]) bs)) \<and>
     itr s' = itr s \<and> path_length s' = path_length s \<and> path_return s' = path_return s \<and>
     terminal s' = terminal s \<and> observation s' = observation s \<and>
     (\<exists>q p. st_self s' = (st_self s)\<lparr>qf_optimizer := q, policy_optimizer := p\<rparr>)"
proof (induction n arbitrary: s)
  case 0
  then have e: "s' = s" by simp
  have t: "length ([] :: batch list) = 0 \<and> st_trace s = st_trace s @
             concat (map (\<lambda>b. [RandomBatch (batch_size (st_self s)) b, DoTraining (itr s) b]) [])"
    by simp
  have sf: "st_self s = (st_self s)\<lparr>qf_optimizer := qf_optimizer (st_self s),
                    policy_optimizer := policy_optimizer (st_self s)\<rparr>" by simp
  show ?case unfolding e using t sf by blast
next
  case (Suc n)
  obtain b w1 where rb: "pool_random_batch c (batch_size (st_self s)) (st_world s) = (b, w1)"
    by (cases "pool_random_batch c (batch_size (st_self s)) (st_world s)")
  let ?s1 = "s\<lparr>st_world := w1,
               st_trace := st_trace s @ [RandomBatch (batch_size (st_self s)) b, DoTraining (itr s) b]\<rparr>"
  have u: "update_loop c (Suc n) s =
             (case do_training c (st_self s) (st_heap s) (itr s) b of
                Inl e \<Rightarrow> Inl e
              | Inr (self', h') \<Rightarrow> update_loop c n (?s1\<lparr>st_self := self', st_heap := h'\<rparr>))"
    by (simp add: rb)
  obtain self' h' where
    d: "do_training c (st_self s) (st_heap s) (itr s) b = Inr (self', h')"
    and rest: "update_loop c n (?s1\<lparr>st_self := self', st_heap := h'\<rparr>) = Inr s'"
  proof (cases "do_training c (st_self s) (st_heap s) (itr s) b")
    case (Inl e)
    with u Suc.prems show ?thesis by simp
  next
    case (Inr x)
    obtain x1 x2 where x: "x = (x1, x2)" by (cases x)
    from u Suc.prems Inr x have "update_loop c n (?s1\<lparr>st_self := x1, st_heap := x2\<rparr>) = Inr s'"
      by simp
    with Inr x that show ?thesis by blast
  qed
  from do_training_self [OF d] obtain q p where
    sf: "self' = (st_self s)\<lparr>qf_optimizer := q, policy_optimizer := p\<rparr>" by blast
  have bsz: "batch_size self' = batch_size (st_self s)" unfolding sf by simp
  note ih = Suc.IH [OF rest]
  have ih1: "\<exists>bs. length bs = n \<and>
           st_trace s' = (st_trace s @ [RandomBatch (batch_size (st_self s)) b, DoTraining (itr s) b]) @
             concat (map (\<lambda>b. [RandomBatch (batch_size (st_self s)) b, DoTraining (itr s) b]) bs)"
    using ih bsz by simp
  have ih2: "itr s' = itr s" "path_length s' = path_length s" "path_return s' = path_return s"
      "terminal s' = terminal s" "observation s' = observation s"
    using ih by simp_all
  have ih3: "\<exists>q p. st_self s' = self'\<lparr>qf_optimizer := q, policy_optimizer := p\<rparr>"
    using ih by simp
  from ih1 obtain bs where l: "length bs = n"
    and t: "st_trace s' = (st_trace s @ [RandomBatch (batch_size (st_self s)) b, DoTraining (itr s) b]) @
             concat (map (\<lambda>b. [RandomBatch (batch_size (st_self s)) b, DoTraining (itr s) b]) bs)"
    by blast
  from ih3 obtain q' p' where sf': "st_self s' = self'\<lparr>qf_optimizer := q', policy_optimizer := p'\<rparr>"
    by blast
  have t': "st_trace s' = st_trace s @
             concat (map (\<lambda>b. [RandomBatch (batch_size (st_self s)) b, DoTraining (itr s) b]) (b # bs))"
    using t by simp
  have sf'': "st_self s' = (st_self s)\<lparr>qf_optimizer := q', policy_optimizer := p'\<rparr>"
    unfolding sf' sf by simp
  have l': "length (b # bs) = Suc n" using l by simp
  from l' t' have "\<exists>bs. length bs = Suc n \<and>
           st_trace s' = st_trace s @
             concat (map (\<lambda>b. [RandomBatch (batch_size (st_self s)) b, DoTraining (itr s) b]) bs)"
    by blast
  moreover from sf'' have "\<exists>q p. st_self s' = (st_self s)\<lparr>qf_optimizer := q, policy_optimizer := p\<rparr>"
    by blast
  ultimately show ?case using ih2 by blast
qed

lemma update_loop_repeat:
  "update_loop c k s = Inr s' \<Longrightarrow>
     \<exists>bs. length bs = k \<and>
          repeat_updates c (itr s) (batch_size (st_self s)) k (st_self s, st_heap s, st_world s) =
            Inr ((st_self s', st_heap s', st_world s'), bs) \<and>
          st_trace s' = st_trace s @
            concat (map (\<lambda>b. [RandomBatch (batch_size (st_self s)) b, DoTraining (itr s) b]) bs)"
proof (induction k arbitrary: s)
  case 0
  then have e: "s' = s" by simp
  have "length ([] :: batch list) = 0 \<and>
          repeat_updates c (itr s) (batch_size (st_self s)) 0 (st_self s, st_heap s, st_world s) =
            Inr ((st_self s, st_heap s, st_world s), []) \<and>
          st_trace s = st_trace s @
            concat (map (\<lambda>b. [RandomBatch (batch_size (st_self s)) b, DoTraining (itr s) b]) [])"
    by simp
  then show ?case unfolding e by (rule exI)
next
  case (Suc k)
  obtain b w1 where rb: "pool_random_batch c (batch_size (st_self s)) (st_world s) = (b, w1)"
    by (cases "pool_random_batch c (batch_size (st_self s)) (st_world s)")
  let ?s1 = "s\<lparr>st_world := w1,
               st_trace := st_trace s @ [RandomBatch (batch_size (st_self s)) b, DoTraining (itr s) b]\<rparr>"
  have u: "update_loop c (Suc k) s =
             (case do_training c (st_self s) (st_heap s) (itr s) b of
                Inl e \<Rightarrow> Inl e
              | Inr (self', h') \<Rightarrow> update_loop c k (?s1\<lparr>st_self := self', st_heap := h'\<rparr>))"
    by (simp add: rb)
  obtain self' h' where
    d: "do_training c (st_self s) (st_heap s) (itr s) b = Inr (self', h')"
    and rest: "update_loop c k (?s1\<lparr>st_self := self', st_heap := h'\<rparr>) = Inr s'"
  proof (cases "do_training c (st_self s) (st_heap s) (itr s) b")
    case (Inl e)
    with u Suc.prems show ?thesis by simp
  next
    case (Inr x)
    obtain x1 x2 where x: "x = (x1, x2)" by (cases x)
    from u Suc.prems Inr x have "update_loop c k (?s1\<lparr>st_self := x1, st_heap := x2\<rparr>) = Inr s'"
      by simp
    with Inr x that show ?thesis by blast
  qed
  from do_training_self [OF d] obtain q p where
    sf: "self' = (st_self s)\<lparr>qf_optimizer := q, policy_optimizer := p\<rparr>" by blast
  have bsz: "batch_size self' = batch_size (st_self s)" unfolding sf by simp
  have ih: "\<exists>bs. length bs = k \<and>
          repeat_updates c (itr s) (batch_size (st_self s)) k (self', h', w1) =
            Inr ((st_self s', st_heap s', st_world s'), bs) \<and>
          st_trace s' = (st_trace s @ [RandomBatch (batch_size (st_self s)) b, DoTraining (itr s) b]) @
            concat (map (\<lambda>b. [RandomBatch (batch_size (st_self s)) b, DoTraining (itr s) b]) bs)"
    using Suc.IH [OF rest] bsz by simp
  then obtain bs where l: "length bs = k"
    and r: "repeat_updates c (itr s) (batch_size (st_self s)) k (self', h', w1) =
            Inr ((st_self s', st_heap s', st_world s'), bs)"
    and t: "st_trace s' = (st_trace s @ [RandomBatch (batch_size (st_self s)) b, DoTraining (itr s) b]) @
            concat (map (\<lambda>b. [RandomBatch (batch_size (st_self s)) b, DoTraining (itr s) b]) bs)"
    by blast
  have r': "repeat_updates c (itr s) (batch_size (st_self s)) (Suc k) (st_self s, st_heap s, st_world s) =
            Inr ((st_self s', st_heap s', st_world s'), b # bs)"
    by (simp add: rb d r)
  have t': "st_trace s' = st_trace s @
             concat (map (\<lambda>b. [RandomBatch (batch_size (st_self s)) b, DoTraining (itr s) b]) (b # bs))"
    using t by simp
  have l': "length (b # bs) = Suc k" using l by simp
  from l' r' t' show ?case by blast
qed

lemma maybe_update_repeat:
  assumes "maybe_update c s = Inr s'"
  shows "pool_size c (st_world s) \<ge> min_pool_size (st_self s) \<Longrightarrow>
         \<exists>bs. length bs = nat (n_updates_per_sample (st_self s)) \<and>
           repeat_updates c (itr s) (batch_size (st_self s)) (nat (n_updates_per_sample (st_self s)))
             (st_self s, st_heap s, st_world s) = Inr ((st_self s', st_heap s', st_world s'), bs) \<and>
           st_trace s' = st_trace s @
             concat (map (\<lambda>b. [RandomBatch (batch_size (st_self s)) b, DoTraining (itr s) b]) bs)"
    and "\<not> pool_size c (st_world s) \<ge> min_pool_size (st_self s) \<Longrightarrow>
         st_self s' = st_self s \<and> st_heap s' = st_heap s \<and> st_world s' = st_world s \<and>
         st_trace s' = st_trace s"
proof -
  let ?r = "if pool_size c (st_world s) \<ge> min_pool_size (st_self s)
            then update_loop c (nat (n_updates_per_sample (st_self s))) s else Inr s"
  obtain s1 where r: "?r = Inr s1" and s': "s' = s1\<lparr>itr := itr s1 + 1\<rparr>"
  proof (cases ?r)
    case (Inl e)
    with assms show ?thesis by (simp add: maybe_update_def)
  next
    case (Inr x)
    with assms have "s' = x\<lparr>itr := itr x + 1\<rparr>" by (simp add: maybe_update_def)
    with Inr that show ?thesis by blast
  qed
  show "\<exists>bs. length bs = nat (n_updates_per_sample (st_self s)) \<and>
           repeat_updates c (itr s) (batch_size (st_self s)) (nat (n_updates_per_sample (st_self s)))
             (st_self s, st_heap s, st_world s) = Inr ((st_self s', st_heap s', st_world s'), bs) \<and>
           st_trace s' = st_trace s @
             concat (map (\<lambda>b. [RandomBatch (batch_size (st_self s)) b, DoTraining (itr s) b]) bs)"
    if "pool_size c (st_world s) \<ge> min_pool_size (st_self s)"
  proof -
    from r that have "update_loop c (nat (n_updates_per_sample (st_self s))) s = Inr s1" by simp
    from update_loop_repeat [OF this] show ?thesis unfolding s' by simp
  qed
  show "st_self s' = st_self s \<and> st_heap s' = st_heap s \<and> st_world s' = st_world s \<and>
         st_trace s' = st_trace s"
    if "\<not> pool_size c (st_world s) \<ge> min_pool_size (st_self s)"
  proof -
    from r that have "s1 = s" by simp
    then show ?thesis unfolding s' by simp
  qed
qed

lemma maybe_update_Inr:
  assumes "maybe_update c s = Inr s'"
  shows "itr s' = itr s + 1"
    and "path_length s' = path_length s" and "path_return s' = path_return s"
    and "terminal s' = terminal s" and "observation s' = observation s"
    and "\<exists>q p. st_self s' = (st_self s)\<lparr>qf_optimizer := q, policy_optimizer := p\<rparr>"
    and "pool_size c (st_world s) \<ge> min_pool_size (st_self s) \<Longrightarrow>
         \<exists>bs. length bs = nat (n_updates_per_sample (st_self s)) \<and>
           st_trace s' = st_trace s @
             concat (map (\<lambda>b. [RandomBatch (batch_size (st_self s)) b, DoTraining (itr s) b]) bs)"
    and "\<not> pool_size c (st_world s) \<ge> min_pool_size (st_self s) \<Longrightarrow>
         st_trace s' = st_trace s \<and> st_heap s' = st_heap s \<and> st_world s' = st_world s"
proof -
  let ?r = "if pool_size c (st_world s) \<ge> min_pool_size (st_self s)
            then update_loop c (nat (n_updates_per_sample (st_self s))) s else Inr s"
  obtain s1 where r: "?r = Inr s1" and s': "s' = s1\<lparr>itr := itr s1 + 1\<rparr>"
  proof (cases ?r)
    case (Inl e)
    with assms show ?thesis by (simp add: maybe_update_def)
  next
    case (Inr x)
    with assms have "s' = x\<lparr>itr := itr x + 1\<rparr>" by (simp add: maybe_update_def)
    with Inr that show ?thesis by blast
  qed
  have k: "(\<exists>bs. length bs = (if pool_size c (st_world s) \<ge> min_pool_size (st_self s)
                               then nat (n_updates_per_sample (st_self s)) else 0) \<and>
           st_trace s1 = st_trace s @
             concat (map (\<lambda>b. [RandomBatch (batch_size (st_self s)) b, DoTraining (itr s) b]) bs)) \<and>
     itr s1 = itr s \<and> path_length s1 = path_length s \<and> path_return s1 = path_return s \<and>
     terminal s1 = terminal s \<and> observation s1 = observation s \<and>
     (\<exists>q p. st_self s1 = (st_self s)\<lparr>qf_optimizer := q, policy_optimizer := p\<rparr>)"
  proof (cases "pool_size c (st_world s) \<ge> min_pool_size (st_self s)")
    case True
    with r have "update_loop c (nat (n_updates_per_sample (st_self s))) s = Inr s1" by simp
    from update_loop_Inr [OF this] True show ?thesis by simp
  next
    case False
    with r have "update_loop c 0 s = Inr s1" by simp
    from update_loop_Inr [OF this] False show ?thesis by simp
  qed
  show "itr s' = itr s + 1" "path_length s' = path_length s" "path_return s' = path_return s"
    "terminal s' = terminal s" "observation s' = observation s"
    unfolding s' using k by simp_all
  show "\<exists>q p. st_self s' = (st_self s)\<lparr>qf_optimizer := q, policy_optimizer := p\<rparr>"
    unfolding s' using k by simp
  show "\<exists>bs. length bs = nat (n_updates_per_sample (st_self s)) \<and>
           st_trace s' = st_trace s @
             concat (map (\<lambda>b. [RandomBatch (batch_size (st_self s)) b, DoTraining (itr s) b]) bs)"
    if "pool_size c (st_world s) \<ge> min_pool_size (st_self s)"
    unfolding s' using k that by simp
  show "st_trace s' = st_trace s \<and> st_heap s' = st_heap s \<and> st_world s' = st_world s"
    if "\<not> pool_size c (st_world s) \<ge> min_pool_size (st_self s)"
  proof -
    from r that have "s1 = s" by simp
    then show ?thesis unfolding s' by simp
  qed
qed

subsection \<open>Collecting\<close>

lemma collect_transition_eq:
  "interact c (begin_episode c s) = (s1, a, ob', r) \<Longrightarrow>
   collect_transition c s = store_transition c s1 a ob' r"
  by (simp add: collect_transition_def)

lemma collect_transition_fields:
  assumes "interact c (begin_episode c s) = (s1, a, ob', r)"
  shows "st_heap (collect_transition c s) = st_heap s"
    and "itr (collect_transition c s) = itr s"
    and "st_self (collect_transition c s) = st_self (begin_episode c s)"
    and "path_length (collect_transition c s) = path_length (begin_episode c s) + 1"
    and "path_return (collect_transition c s) = path_return (begin_episode c s) + r"
    and "terminal (collect_transition c s) = (terminal s1 \<or> path_length s1 \<ge> max_path_length (st_self s1))"
    and "observation (collect_transition c s) = ob'"
  unfolding collect_transition_eq [OF assms]
  by (simp_all add: store_transition_fields interact_fields [OF assms] begin_episode_keeps)

lemma collect_transition_trace:
  assumes "interact c (begin_episode c s) = (s1, a, ob', r)"
  shows "st_trace (collect_transition c s) =
           st_trace s @ (if terminal s then [EnvReset, EsReset] else []) @
           [GetAction (itr s) (observation (begin_episode c s)), EnvStep a] @
           (if plot (st_self s1) then [EnvRender] else []) @
           (if \<not> terminal s1 \<and> path_length s1 \<ge> max_path_length (st_self s1) \<and>
               \<not> include_horizon_terminal_transitions (st_self s1)
            then []
            else [AddSample (observation (begin_episode c s)) a (r * scale_reward (st_self s1))
                    (terminal s1 \<or> path_length s1 \<ge> max_path_length (st_self s1))])"
  unfolding collect_transition_eq [OF assms] store_transition_trace
  by (simp add: interact_fields [OF assms] begin_episode_keeps)

lemma collect_transition_heap: "st_heap (collect_transition c s) = st_heap s"
proof -
  obtain s1 a ob' r where "interact c (begin_episode c s) = (s1, a, ob', r)"
    by (cases "interact c (begin_episode c s)") auto
  then show ?thesis by (rule collect_transition_fields)
qed

lemma config_kept:
  assumes "st_self s1 = (st_self s)\<lparr>es_path_returns := l\<rparr>"
  shows "max_path_length (st_self s1) = max_path_length (st_self s)"
    and "include_horizon_terminal_transitions (st_self s1) = include_horizon_terminal_transitions (st_self s)"
    and "scale_reward (st_self s1) = scale_reward (st_self s)"
    and "min_pool_size (st_self s1) = min_pool_size (st_self s)"
    and "n_updates_per_sample (st_self s1) = n_updates_per_sample (st_self s)"
    and "batch_size (st_self s1) = batch_size (st_self s)"
    and "plot (st_self s1) = plot (st_self s)"
  unfolding assms by simp_all

subsection \<open>The update step\<close>

text \<open>
  C1. In \<open>do_training\<close>, when the batch holds one reward and one terminal marker per
  transition and the target critic returns one Q-value per transition, the regression
  target of transition \<open>i\<close> is \<open>reward + (1 - terminal) * discount * next_q\<close> in
  floating-point arithmetic, where \<open>next_q\<close> is \<open>get_qval\<close> with the parameters of
  \<open>target_qf\<close> on the next observations and on the actions that \<open>get_action\<close> with
  the parameters of \<open>target_policy\<close> gives for them. Where the terminal marker is 1 and
  both the discount and \<open>next_q\<close> are finite, the target is the stored reward itself.
  These targets are what \<open>train_qf\<close> receives.
\<close>

theorem regression_target_formula:
  assumes "length (terminals b) = length (rewards b)"
      and "length (get_qval c (get_param_values h (target_qf self)) (next_observations b)
                     (get_action c (get_param_values h (target_policy self)) (next_observations b))) =
           length (rewards b)"
  shows "\<exists>ys. regression_targets c self h b = Inr ys \<and>
           length ys = length (rewards b) \<and>
           (\<forall>i<length (rewards b).
              ys ! i = fadd (rewards b ! i)
                         (fmul (fmul (fsub (Fin 1) (terminals b ! i)) (discount self))
                            (get_qval c (get_param_values h (target_qf self)) (next_observations b)
                               (get_action c (get_param_values h (target_policy self))
                                  (next_observations b)) ! i)) \<and>
              (terminals b ! i = Fin 1 \<and> is_finite (discount self) \<and>
               is_finite (get_qval c (get_param_values h (target_qf self)) (next_observations b)
                            (get_action c (get_param_values h (target_policy self))
                               (next_observations b)) ! i) \<longrightarrow>
               ys ! i = rewards b ! i)) \<and>
           do_training c self h k b =
             Inr (case train_qf c self h ys (observations b) (actions b) of
                    (self1, h1) \<Rightarrow>
                      (case train_policy c self1 h1 (observations b) of
                         (self2, h2) \<Rightarrow> (self2, soft_target_sync self2 h2)))"
proof -
  let ?q = "get_qval c (get_param_values h (target_qf self)) (next_observations b)
              (get_action c (get_param_values h (target_policy self)) (next_observations b))"
  let ?ys = "map (\<lambda>i. fadd (rewards b ! i)
                         (fmul (fmul (fsub (Fin 1) (terminals b ! i)) (discount self)) (?q ! i)))
                [0..<length (rewards b)]"
  have r: "regression_targets c self h b = Inr ?ys"
    using assms by (rule regression_targets_eq)
  have d: "do_training c self h k b =
             Inr (case train_qf c self h ?ys (observations b) (actions b) of
                    (self1, h1) \<Rightarrow>
                      (case train_policy c self1 h1 (observations b) of
                         (self2, h2) \<Rightarrow> (self2, soft_target_sync self2 h2)))"
    unfolding do_training_def r by (simp add: Let_def split: prod.splits)
  have z: "fadd x (fmul (fmul (fsub (Fin 1) (Fin 1)) d') q) = x"
    if "is_finite d'" "is_finite q" for x d' q
    using that by (cases d'; cases q) (simp_all add: is_finite_def fsub_def)
  have e: "\<forall>i<length (rewards b).
              ?ys ! i = fadd (rewards b ! i)
                          (fmul (fmul (fsub (Fin 1) (terminals b ! i)) (discount self)) (?q ! i)) \<and>
              (terminals b ! i = Fin 1 \<and> is_finite (discount self) \<and> is_finite (?q ! i) \<longrightarrow>
               ?ys ! i = rewards b ! i)"
    by (simp add: z)
  have l: "length ?ys = length (rewards b)" by simp
  from r l e d show ?thesis by blast
qed

text \<open>
  The scenario's batch: the target critic (parameter 2) on the target actor's actions
  (parameter 1) gives 6 and 10; the targets are 5 for the running transition and the
  reward 3 for the terminal one.
\<close>

theorem regression_target_formula_witness:
  "length (terminals ex_batch) = length (rewards ex_batch) \<and>
   get_qval ex_collab (get_param_values ex_heap (target_qf ex_self)) (next_observations ex_batch)
     (get_action ex_collab (get_param_values ex_heap (target_policy ex_self)) (next_observations ex_batch)) =
     [Fin 6, Fin 10] \<and>
   terminals ex_batch ! 1 = Fin 1 \<and> is_finite (discount ex_self) \<and>
   (\<exists>ys. regression_targets ex_collab ex_self ex_heap ex_batch = Inr ys \<and>
         ys ! 0 = Fin 5 \<and> ys ! 1 = Fin 3)"
proof -
  let ?q = "get_qval ex_collab (get_param_values ex_heap (target_qf ex_self)) (next_observations ex_batch)
     (get_action ex_collab (get_param_values ex_heap (target_policy ex_self)) (next_observations ex_batch))"
  have a: "length (terminals ex_batch) = length (rewards ex_batch)"
    by (simp add: ex_batch_def)
  have b: "length ?q = length (rewards ex_batch)"
    unfolding ex_next_qvals by (simp add: ex_batch_def)
  have t: "terminals ex_batch ! 1 = Fin 1" by (simp add: ex_batch_def)
  have f: "is_finite (discount ex_self)" "is_finite (?q ! 1)"
    unfolding ex_next_qvals by (simp_all add: ex_self_config is_finite_def)
  from regression_target_formula [OF a b, of 0] obtain ys where
    r: "regression_targets ex_collab ex_self ex_heap ex_batch = Inr ys"
    and e: "\<forall>i<length (rewards ex_batch).
              ys ! i = fadd (rewards ex_batch ! i)
                         (fmul (fmul (fsub (Fin 1) (terminals ex_batch ! i)) (discount ex_self)) (?q ! i)) \<and>
              (terminals ex_batch ! i = Fin 1 \<and> is_finite (discount ex_self) \<and> is_finite (?q ! i) \<longrightarrow>
               ys ! i = rewards ex_batch ! i)"
    by blast
  have l: "0 < length (rewards ex_batch)" "1 < length (rewards ex_batch)"
    by (simp_all add: ex_batch_def)
  from e l(1) have "ys ! 0 = fadd (rewards ex_batch ! 0)
                         (fmul (fmul (fsub (Fin 1) (terminals ex_batch ! 0)) (discount ex_self)) (?q ! 0))"
    by blast
  then have y0: "ys ! 0 = Fin 5"
    unfolding ex_next_qvals by (simp add: ex_batch_def ex_self_config fsub_def)
  from e l(2) t f have "ys ! 1 = rewards ex_batch ! 1" by blast
  then have y1: "ys ! 1 = Fin 3" by (simp add: ex_batch_def)
  from a ex_next_qvals t f(1) r y0 y1 show ?thesis by blast
qed

text \<open>
  With a critic that returns infinity, the terminal transition of the scenario's batch
  (reward 3, terminal marker 1) gets the target NaN: zero times infinity is NaN, and so is
  its sum with the reward.
\<close>

theorem regression_target_terminal_counterexample:
  "terminals ex_batch ! 1 = Fin 1 \<and> rewards ex_batch ! 1 = Fin 3 \<and>
   regression_targets ex_collab_inf ex_self ex_heap ex_batch = Inr [PInf, NaN] \<and>
   [PInf, NaN] ! 1 \<noteq> rewards ex_batch ! 1"
  unfolding regression_targets_def Let_def
  by (simp add: ex_collab_inf_def ex_collab_def ex_batch_def broadcast2_def ex_self_config fsub_def)

text \<open>
  C2. Every call of \<open>do_training\<close> that returns ends with the soft synchronisation:
  the parameters of each target network become the running average of their prior value
  and the live network's parameters (as they are after the two gradient steps), entry by
  entry \<open>tau * a + (1 - tau) * b\<close>. With \<open>tau = 1\<close> the running average of two lists
  of the same shapes is the live list, with \<open>tau = 0\<close> the prior target list.
\<close>

theorem soft_target_update_law:
  assumes "do_training c self h k b = Inr (self', h')" and "well_formed self h"
  shows "get_param_values h' (target_policy self) =
           running_average_tensor_list (get_param_values h (target_policy self))
             (get_param_values h' (policy self)) (soft_target_tau self) \<and>
         get_param_values h' (target_qf self) =
           running_average_tensor_list (get_param_values h (target_qf self))
             (get_param_values h' (qf self)) (soft_target_tau self) \<and>
         (\<forall>bs as tau i j. i < length bs \<and> i < length as \<and> j < length (bs ! i) \<and> j < length (as ! i) \<longrightarrow>
            running_average_tensor_list bs as tau ! i ! j = tau * as ! i ! j + (1 - tau) * bs ! i ! j) \<and>
         (\<forall>bs as. same_shape bs as \<longrightarrow>
            running_average_tensor_list bs as 1 = as \<and> running_average_tensor_list bs as 0 = bs)"
proof -
  have law: "\<forall>bs as tau i j. i < length bs \<and> i < length as \<and> j < length (bs ! i) \<and> j < length (as ! i) \<longrightarrow>
            running_average_tensor_list bs as tau ! i ! j = tau * as ! i ! j + (1 - tau) * bs ! i ! j"
    by (simp add: running_average_tensor_list_nth running_average_tensor_nth)
  have ends: "\<forall>bs as. same_shape bs as \<longrightarrow>
            running_average_tensor_list bs as 1 = as \<and> running_average_tensor_list bs as 0 = bs"
    by (simp add: running_average_tensor_list_one running_average_tensor_list_zero)
  from do_training_targets [OF assms] law ends show ?thesis by blast
qed

text \<open>The scenario: targets 1 and 2 move a quarter of the way to the live 3/4 and 3/2.\<close>

theorem soft_target_update_law_witness:
  "well_formed ex_self ex_heap \<and>
   (\<exists>h'. do_training ex_collab ex_self ex_heap 0 ex_batch = Inr (ex_self, h') \<and>
         get_param_values h' (policy ex_self) = [[3 / 4]] \<and>
         get_param_values ex_heap (target_policy ex_self) = [[1]] \<and>
         get_param_values h' (target_policy ex_self) = [[15 / 16]] \<and>
         get_param_values h' (target_policy ex_self) =
           running_average_tensor_list [[1]] [[3 / 4]] (1 / 4) \<and>
         get_param_values h' (target_qf ex_self) =
           running_average_tensor_list [[2]] [[3 / 2]] (1 / 4))"
proof -
  let ?h = "[\<lparr>param_values = [[3 / 4]], grad = Some [[1]]\<rparr>, \<lparr>param_values = [[3 / 2]], grad = Some [[2]]\<rparr>,
      \<lparr>param_values = [[15 / 8]], grad = None\<rparr>, \<lparr>param_values = [[15 / 16]], grad = None\<rparr>]"
  have d: "do_training ex_collab ex_self ex_heap 0 ex_batch = Inr (ex_self, ?h)"
    by (rule ex_do_training)
  have v: "get_param_values ?h (policy ex_self) = [[3 / 4]]"
    "get_param_values ?h (qf ex_self) = [[3 / 2]]"
    "get_param_values ex_heap (target_policy ex_self) = [[1]]"
    "get_param_values ex_heap (target_qf ex_self) = [[2]]"
    "get_param_values ?h (target_policy ex_self) = [[15 / 16]]"
    "soft_target_tau ex_self = 1 / 4"
    by (simp_all add: get_param_values_def ex_self_refs ex_heap_eval ex_self_config)
  from soft_target_update_law [OF d ex_well_formed]
  have p: "get_param_values ?h (target_policy ex_self) =
           running_average_tensor_list (get_param_values ex_heap (target_policy ex_self))
             (get_param_values ?h (policy ex_self)) (soft_target_tau ex_self)"
    and q: "get_param_values ?h (target_qf ex_self) =
           running_average_tensor_list (get_param_values ex_heap (target_qf ex_self))
             (get_param_values ?h (qf ex_self)) (soft_target_tau ex_self)"
    by blast+
  have p': "get_param_values ?h (target_policy ex_self) =
           running_average_tensor_list [[1]] [[3 / 4]] (1 / 4)"
    using p unfolding v .
  have q': "get_param_values ?h (target_qf ex_self) =
           running_average_tensor_list [[2]] [[3 / 2]] (1 / 4)"
    using q unfolding v .
  show ?thesis
    using ex_well_formed d v(1) v(3) v(5) p' q' by blast
qed

text \<open>
  C9. \<open>train_policy\<close>, with the policy's optimizer bound to the policy and the policy a
  different object from the critic, changes the parameter values of the policy only: the
  critic's (and every other object's) parameter values are the same before and after,
  the store keeps its size, and the policy's new parameters are what one step of its
  update method returns from the surrogate's gradient. Of the trainer only the policy's
  optimizer changes.
\<close>

theorem train_policy_only_updates_policy:
  assumes "opt_params (policy_optimizer self) = policy self"
      and "policy self \<noteq> qf self"
      and "train_policy c self h os = (self', h')"
  shows "get_param_values h' (qf self) = get_param_values h (qf self) \<and>
         (\<forall>r. r \<noteq> policy self \<longrightarrow> get_param_values h' r = get_param_values h r) \<and>
         length h' = length h \<and>
         (\<exists>p. self' = self\<lparr>policy_optimizer := p\<rparr>) \<and>
         (policy self < length h \<longrightarrow>
            (\<exists>g. get_param_values h' (policy self) =
                    fst (opt_method (policy_optimizer self) (opt_lr (policy_optimizer self))
                           (opt_weight_decay (policy_optimizer self)) (opt_state (policy_optimizer self))
                           (get_param_values h (policy self)) g)))"
proof -
  have h': "h' = snd (train_policy c self h os)" and s': "self' = fst (train_policy c self h os)"
    using assms(3) by simp_all
  have frame: "\<forall>r. r \<noteq> policy self \<longrightarrow> get_param_values h' r = get_param_values h r"
    unfolding h' using assms(1) by (simp add: train_policy_frame)
  then have critic: "get_param_values h' (qf self) = get_param_values h (qf self)"
    using assms(2) by simp
  have len: "length h' = length h" unfolding h' by simp
  have opt: "\<exists>p. self' = self\<lparr>policy_optimizer := p\<rparr>"
    unfolding s' train_policy_fst by blast
  have step: "policy self < length h \<longrightarrow>
            (\<exists>g. get_param_values h' (policy self) =
                    fst (opt_method (policy_optimizer self) (opt_lr (policy_optimizer self))
                           (opt_weight_decay (policy_optimizer self)) (opt_state (policy_optimizer self))
                           (get_param_values h (policy self)) g))"
  proof
    assume v: "policy self < length h"
    let ?h2 = "accumulate_grad
         (accumulate_grad (zero_grad (policy_optimizer self) h) (policy self)
            (fst (policy_surr_grad c (get_param_values h (qf self)) (get_param_values h (policy self)) os)))
         (qf self)
         (snd (policy_surr_grad c (get_param_values h (qf self)) (get_param_values h (policy self)) os))"
    have "opt_params (policy_optimizer self) < length ?h2" using v assms(1) by simp
    from params_opt_step_same [OF this]
    have "get_param_values h' (policy self) =
            fst (opt_method (policy_optimizer self) (opt_lr (policy_optimizer self))
                   (opt_weight_decay (policy_optimizer self)) (opt_state (policy_optimizer self))
                   (get_param_values h (policy self)) (grad (?h2 ! policy self)))"
      unfolding h' train_policy_snd assms(1) by simp
    then show "\<exists>g. get_param_values h' (policy self) =
                    fst (opt_method (policy_optimizer self) (opt_lr (policy_optimizer self))
                           (opt_weight_decay (policy_optimizer self)) (opt_state (policy_optimizer self))
                           (get_param_values h (policy self)) g)" by blast
  qed
  from critic frame len opt step show ?thesis by blast
qed

text \<open>
  The scenario, after the critic's step: the policy moves from 1 to 3/4, the critic stays
  at 3/2 although its gradient buffer grows from 1 to 2.
\<close>

theorem train_policy_only_updates_policy_witness:
  "opt_params (policy_optimizer ex_self) = policy ex_self \<and>
   policy ex_self \<noteq> qf ex_self \<and>
   (\<exists>h h'. train_policy ex_collab ex_self h (observations ex_batch) = (ex_self, h') \<and>
      get_param_values h (policy ex_self) = [[1]] \<and>
      get_param_values h' (policy ex_self) = [[3 / 4]] \<and>
      get_param_values h (qf ex_self) = [[3 / 2]] \<and>
      get_param_values h' (qf ex_self) = get_param_values h (qf ex_self) \<and>
      grad (h ! qf ex_self) = Some [[1]] \<and> grad (h' ! qf ex_self) = Some [[2]])"
proof -
  let ?h = "[\<lparr>param_values = [[1]], grad = None\<rparr>, \<lparr>param_values = [[3 / 2]], grad = Some [[1]]\<rparr>,
      \<lparr>param_values = [[2]], grad = None\<rparr>, \<lparr>param_values = [[1]], grad = None\<rparr>]"
  let ?h' = "[\<lparr>param_values = [[3 / 4]], grad = Some [[1]]\<rparr>, \<lparr>param_values = [[3 / 2]], grad = Some [[2]]\<rparr>,
                \<lparr>param_values = [[2]], grad = None\<rparr>, \<lparr>param_values = [[1]], grad = None\<rparr>]"
  have a: "opt_params (policy_optimizer ex_self) = policy ex_self" by (simp add: ex_self_refs)
  have b: "policy ex_self \<noteq> qf ex_self" by (simp add: ex_self_refs)
  have t: "train_policy ex_collab ex_self ?h (observations ex_batch) = (ex_self, ?h')"
    by (rule ex_train_policy)
  from train_policy_only_updates_policy [OF a b t]
  have critic: "get_param_values ?h' (qf ex_self) = get_param_values ?h (qf ex_self)" by blast
  have v: "get_param_values ?h (policy ex_self) = [[1]]"
    "get_param_values ?h' (policy ex_self) = [[3 / 4]]"
    "get_param_values ?h (qf ex_self) = [[3 / 2]]"
    "grad (?h ! qf ex_self) = Some [[1]]" "grad (?h' ! qf ex_self) = Some [[2]]"
    by (simp_all add: get_param_values_def ex_self_refs)
  show ?thesis
    using a b t critic v by blast
qed

subsection \<open>Construction\<close>

lemma DDPG_init_refs:
  "policy (fst (DDPG_init c a h)) = arg_policy a"
  "qf (fst (DDPG_init c a h)) = arg_qf a"
  "target_qf (fst (DDPG_init c a h)) = length h"
  "target_policy (fst (DDPG_init c a h)) = Suc (length h)"
  "opt_params (qf_optimizer (fst (DDPG_init c a h))) = arg_qf a"
  "opt_params (policy_optimizer (fst (DDPG_init c a h))) = arg_policy a"
  "snd (DDPG_init c a h) =
     h @ [(h ! arg_qf a)\<lparr>grad := None\<rparr>,
          ((h @ [(h ! arg_qf a)\<lparr>grad := None\<rparr>]) ! arg_policy a)\<lparr>grad := None\<rparr>]"
  by (simp_all add: DDPG_init_def deepcopy_def new_optimizer_def Let_def)

lemma DDPG_init_well_formed:
  assumes "arg_policy a < length h" "arg_qf a < length h" "arg_policy a \<noteq> arg_qf a"
  shows "well_formed (fst (DDPG_init c a h)) (snd (DDPG_init c a h))"
  using assms by (auto simp: well_formed_def DDPG_init_refs)

lemma DDPG_init_targets:
  assumes "arg_policy a < length h" "arg_qf a < length h"
  shows "get_param_values (snd (DDPG_init c a h)) (target_qf (fst (DDPG_init c a h))) =
           get_param_values h (arg_qf a)"
    and "get_param_values (snd (DDPG_init c a h)) (target_policy (fst (DDPG_init c a h))) =
           get_param_values h (arg_policy a)"
    and "\<forall>r<length h. snd (DDPG_init c a h) ! r = h ! r"
  using assms by (simp_all add: DDPG_init_refs get_param_values_def nth_append)

text \<open>
  C4. The critic's optimizer is built from \<open>qf_learning_rate\<close> and \<open>qf_weight_decay\<close>;
  the policy's optimizer is built from \<open>policy_learning_rate\<close> alone, without a weight
  decay, so that the update method's default applies whatever \<open>policy_weight_decay\<close>
  is: a trainer built with \<open>policy_weight_decay = 1/100\<close> is the trainer built with
  \<open>policy_weight_decay = 0\<close>.
\<close>

theorem policy_weight_decay_not_passed:
  "opt_lr (qf_optimizer (fst (DDPG_init c (a\<lparr>arg_policy_weight_decay := 1 / 100\<rparr>) h))) =
     arg_qf_learning_rate a \<and>
   opt_weight_decay (qf_optimizer (fst (DDPG_init c (a\<lparr>arg_policy_weight_decay := 1 / 100\<rparr>) h))) =
     Some (arg_qf_weight_decay a) \<and>
   opt_lr (policy_optimizer (fst (DDPG_init c (a\<lparr>arg_policy_weight_decay := 1 / 100\<rparr>) h))) =
     arg_policy_learning_rate a \<and>
   opt_weight_decay (policy_optimizer (fst (DDPG_init c (a\<lparr>arg_policy_weight_decay := 1 / 100\<rparr>) h))) =
     None \<and>
   DDPG_init c (a\<lparr>arg_policy_weight_decay := 1 / 100\<rparr>) h =
     DDPG_init c (a\<lparr>arg_policy_weight_decay := 0\<rparr>) h"
  by (simp add: DDPG_init_def deepcopy_def new_optimizer_def Let_def)

text \<open>
  C10. The argument \<open>soft_target\<close> is read nowhere: construction gives the same trainer
  and the same store whatever its value, and so does a whole run. The update step ends
  with the soft synchronisation on every path that returns.
\<close>

theorem soft_target_flag_has_no_effect:
  "DDPG_init c (a\<lparr>arg_soft_target := x\<rparr>) h = DDPG_init c a h \<and>
   run c (a\<lparr>arg_soft_target := x\<rparr>) h w = run c a h w \<and>
   do_training c (fst (DDPG_init c (a\<lparr>arg_soft_target := x\<rparr>) h)) h1 k b =
     (case regression_targets c (fst (DDPG_init c a h)) h1 b of
        Inl e \<Rightarrow> Inl e
      | Inr ys \<Rightarrow>
          Inr (case train_qf c (fst (DDPG_init c a h)) h1 ys (observations b) (actions b) of
                 (self1, h2) \<Rightarrow>
                   (case train_policy c self1 h2 (observations b) of
                      (self2, h3) \<Rightarrow> (self2, soft_target_sync self2 h3))))"
proof -
  have i: "DDPG_init c (a\<lparr>arg_soft_target := x\<rparr>) h = DDPG_init c a h"
    by (simp add: DDPG_init_def deepcopy_def new_optimizer_def Let_def)
  have r: "run c (a\<lparr>arg_soft_target := x\<rparr>) h w = run c a h w"
    unfolding run_def i ..
  have d: "do_training c (fst (DDPG_init c a h)) h1 k b =
     (case regression_targets c (fst (DDPG_init c a h)) h1 b of
        Inl e \<Rightarrow> Inl e
      | Inr ys \<Rightarrow>
          Inr (case train_qf c (fst (DDPG_init c a h)) h1 ys (observations b) (actions b) of
                 (self1, h2) \<Rightarrow>
                   (case train_policy c self1 h2 (observations b) of
                      (self2, h3) \<Rightarrow> (self2, soft_target_sync self2 h3))))"
    unfolding do_training_def by (simp add: Let_def split: sum.splits prod.splits)
  show ?thesis unfolding i using r d by simp
qed

subsection \<open>One pass through the loop body\<close>

lemma train_step_Inr:
  assumes i: "interact c (begin_episode c s) = (s1, a, ob', r)"
      and t: "train_step c s = Inr s'"
  shows "\<exists>bs. length bs = (if pool_size c (st_world (collect_transition c s)) \<ge> min_pool_size (st_self s)
                            then nat (n_updates_per_sample (st_self s)) else 0) \<and>
           st_trace s' = st_trace (collect_transition c s) @
             concat (map (\<lambda>b. [RandomBatch (batch_size (st_self s)) b, DoTraining (itr s) b]) bs)"
    and "itr s' = itr s + 1"
    and "path_length s' = path_length (begin_episode c s) + 1"
    and "path_return s' = path_return (begin_episode c s) + r"
    and "terminal s' = (terminal s1 \<or> path_length s1 \<ge> max_path_length (st_self s))"
    and "observation s' = ob'"
    and "es_path_returns (st_self s') = es_path_returns (st_self (begin_episode c s))"
proof -
  let ?s2 = "collect_transition c s"
  have m: "maybe_update c ?s2 = Inr s'" using t by (simp add: train_step_def)
  from begin_episode_keeps(3) [of c s] obtain l where
    b: "st_self (begin_episode c s) = (st_self s)\<lparr>es_path_returns := l\<rparr>" by blast
  have sf2: "st_self ?s2 = (st_self s)\<lparr>es_path_returns := l\<rparr>"
    using collect_transition_fields(3) [OF i] b by simp
  have sf1: "st_self s1 = (st_self s)\<lparr>es_path_returns := l\<rparr>"
    using interact_fields(1) [OF i] b by simp
  note cfg2 = config_kept [OF sf2] and cfg1 = config_kept [OF sf1]
  show "\<exists>bs. length bs = (if pool_size c (st_world ?s2) \<ge> min_pool_size (st_self s)
                            then nat (n_updates_per_sample (st_self s)) else 0) \<and>
           st_trace s' = st_trace ?s2 @
             concat (map (\<lambda>b. [RandomBatch (batch_size (st_self s)) b, DoTraining (itr s) b]) bs)"
  proof (cases "pool_size c (st_world ?s2) \<ge> min_pool_size (st_self s)")
    case True
    then have "pool_size c (st_world ?s2) \<ge> min_pool_size (st_self ?s2)" using cfg2 by simp
    from maybe_update_Inr(7) [OF m this] True show ?thesis
      using cfg2 collect_transition_fields(2) [OF i] by simp
  next
    case False
    then have "\<not> pool_size c (st_world ?s2) \<ge> min_pool_size (st_self ?s2)" using cfg2 by simp
    from maybe_update_Inr(8) [OF m this] have "st_trace s' = st_trace ?s2" by simp
    then have "length ([] :: batch list) = (if pool_size c (st_world ?s2) \<ge> min_pool_size (st_self s)
                            then nat (n_updates_per_sample (st_self s)) else 0) \<and>
           st_trace s' = st_trace ?s2 @
             concat (map (\<lambda>b. [RandomBatch (batch_size (st_self s)) b, DoTraining (itr s) b]) [])"
      using False by simp
    then show ?thesis by (rule exI)
  qed
  show "itr s' = itr s + 1"
    using maybe_update_Inr(1) [OF m] collect_transition_fields(2) [OF i] by simp
  show "path_length s' = path_length (begin_episode c s) + 1"
    using maybe_update_Inr(2) [OF m] collect_transition_fields(4) [OF i] by simp
  show "path_return s' = path_return (begin_episode c s) + r"
    using maybe_update_Inr(3) [OF m] collect_transition_fields(5) [OF i] by simp
  show "terminal s' = (terminal s1 \<or> path_length s1 \<ge> max_path_length (st_self s))"
    using maybe_update_Inr(4) [OF m] collect_transition_fields(6) [OF i] cfg1 by simp
  show "observation s' = ob'"
    using maybe_update_Inr(5) [OF m] collect_transition_fields(7) [OF i] by simp
  from maybe_update_Inr(6) [OF m] obtain q p where
    "st_self s' = (st_self ?s2)\<lparr>qf_optimizer := q, policy_optimizer := p\<rparr>" by blast
  then show "es_path_returns (st_self s') = es_path_returns (st_self (begin_episode c s))"
    using collect_transition_fields(3) [OF i] by simp
qed

lemma new_events_append: "st_trace s' = st_trace s @ es \<Longrightarrow> new_events s s' = es"
  by (simp add: new_events_def)

lemma train_step_new_events:
  assumes i: "interact c (begin_episode c s) = (s1, a, ob', r)"
      and t: "train_step c s = Inr s'"
  shows "\<exists>bs. length bs = (if pool_size c (st_world (collect_transition c s)) \<ge> min_pool_size (st_self s)
                            then nat (n_updates_per_sample (st_self s)) else 0) \<and>
           new_events s s' =
             (if terminal s then [EnvReset, EsReset] else []) @
             [GetAction (itr s) (observation (begin_episode c s)), EnvStep a] @
             (if plot (st_self s) then [EnvRender] else []) @
             (if \<not> terminal s1 \<and> path_length s1 \<ge> max_path_length (st_self s) \<and>
                 \<not> include_horizon_terminal_transitions (st_self s)
              then []
              else [AddSample (observation (begin_episode c s)) a (r * scale_reward (st_self s))
                      (terminal s1 \<or> path_length s1 \<ge> max_path_length (st_self s))]) @
             concat (map (\<lambda>b. [RandomBatch (batch_size (st_self s)) b, DoTraining (itr s) b]) bs)"
proof -
  from begin_episode_keeps(3) [of c s] obtain l where
    b: "st_self (begin_episode c s) = (st_self s)\<lparr>es_path_returns := l\<rparr>" by blast
  have sf1: "st_self s1 = (st_self s)\<lparr>es_path_returns := l\<rparr>"
    using interact_fields(1) [OF i] b by simp
  note cfg1 = config_kept [OF sf1]
  from train_step_Inr(1) [OF i t] obtain bs where
    l: "length bs = (if pool_size c (st_world (collect_transition c s)) \<ge> min_pool_size (st_self s)
                            then nat (n_updates_per_sample (st_self s)) else 0)"
    and tr: "st_trace s' = st_trace (collect_transition c s) @
             concat (map (\<lambda>b. [RandomBatch (batch_size (st_self s)) b, DoTraining (itr s) b]) bs)"
    by blast
  have "st_trace s' = st_trace s @
             ((if terminal s then [EnvReset, EsReset] else []) @
             [GetAction (itr s) (observation (begin_episode c s)), EnvStep a] @
             (if plot (st_self s) then [EnvRender] else []) @
             (if \<not> terminal s1 \<and> path_length s1 \<ge> max_path_length (st_self s) \<and>
                 \<not> include_horizon_terminal_transitions (st_self s)
              then []
              else [AddSample (observation (begin_episode c s)) a (r * scale_reward (st_self s))
                      (terminal s1 \<or> path_length s1 \<ge> max_path_length (st_self s))]) @
             concat (map (\<lambda>b. [RandomBatch (batch_size (st_self s)) b, DoTraining (itr s) b]) bs))"
    unfolding tr collect_transition_trace [OF i] cfg1 by simp
  from new_events_append [OF this] l show ?thesis by blast
qed

lemma train_step_added_samples:
  assumes i: "interact c (begin_episode c s) = (s1, a, ob', r)"
      and t: "train_step c s = Inr s'"
  shows "added_samples (new_events s s') =
           (if \<not> terminal s1 \<and> path_length s1 \<ge> max_path_length (st_self s) \<and>
               \<not> include_horizon_terminal_transitions (st_self s)
            then []
            else [(observation (begin_episode c s), a, r * scale_reward (st_self s),
                   terminal s1 \<or> path_length s1 \<ge> max_path_length (st_self s))])"
proof -
  from train_step_new_events [OF i t] obtain bs where
    "new_events s s' =
             (if terminal s then [EnvReset, EsReset] else []) @
             [GetAction (itr s) (observation (begin_episode c s)), EnvStep a] @
             (if plot (st_self s) then [EnvRender] else []) @
             (if \<not> terminal s1 \<and> path_length s1 \<ge> max_path_length (st_self s) \<and>
                 \<not> include_horizon_terminal_transitions (st_self s)
              then []
              else [AddSample (observation (begin_episode c s)) a (r * scale_reward (st_self s))
                      (terminal s1 \<or> path_length s1 \<ge> max_path_length (st_self s))]) @
             concat (map (\<lambda>b. [RandomBatch (batch_size (st_self s)) b, DoTraining (itr s) b]) bs)"
    by blast
  then show ?thesis by simp
qed

lemma train_step_training_calls:
  assumes i: "interact c (begin_episode c s) = (s1, a, ob', r)"
      and t: "train_step c s = Inr s'"
  shows "\<exists>bs. length bs = (if pool_size c (st_world (collect_transition c s)) \<ge> min_pool_size (st_self s)
                            then nat (n_updates_per_sample (st_self s)) else 0) \<and>
           training_calls (new_events s s') = map (\<lambda>b. (itr s, b)) bs \<and>
           batch_requests (new_events s s') = map (\<lambda>b. (batch_size (st_self s), b)) bs"
proof -
  from train_step_new_events [OF i t] obtain bs where
    l: "length bs = (if pool_size c (st_world (collect_transition c s)) \<ge> min_pool_size (st_self s)
                            then nat (n_updates_per_sample (st_self s)) else 0)"
    and n: "new_events s s' =
             (if terminal s then [EnvReset, EsReset] else []) @
             [GetAction (itr s) (observation (begin_episode c s)), EnvStep a] @
             (if plot (st_self s) then [EnvRender] else []) @
             (if \<not> terminal s1 \<and> path_length s1 \<ge> max_path_length (st_self s) \<and>
                 \<not> include_horizon_terminal_transitions (st_self s)
              then []
              else [AddSample (observation (begin_episode c s)) a (r * scale_reward (st_self s))
                      (terminal s1 \<or> path_length s1 \<ge> max_path_length (st_self s))]) @
             concat (map (\<lambda>b. [RandomBatch (batch_size (st_self s)) b, DoTraining (itr s) b]) bs)"
    by blast
  have "training_calls (new_events s s') = map (\<lambda>b. (itr s, b)) bs"
    unfolding n by simp
  moreover have "batch_requests (new_events s s') = map (\<lambda>b. (batch_size (st_self s), b)) bs"
    unfolding n by simp
  ultimately show ?thesis using l by blast
qed

subsection \<open>The scenario never fails\<close>

lemma ex_do_training_returns: "\<exists>x. do_training ex_collab self h i ex_batch = Inr x"
proof -
  have "\<exists>ys. regression_targets ex_collab self h ex_batch = Inr ys"
    by (simp add: regression_targets_def ex_collab_def ex_batch_def broadcast2_def Let_def)
  then obtain ys where "regression_targets ex_collab self h ex_batch = Inr ys" by blast
  then show ?thesis by (simp add: do_training_def Let_def split: prod.splits)
qed

lemma ex_random_batch: "pool_random_batch ex_collab n w = (ex_batch, w)"
  by (simp add: ex_collab_def)

lemma ex_update_loop_returns: "\<exists>s'. update_loop ex_collab n s = Inr s'"
proof (induction n arbitrary: s)
  case 0
  show ?case by simp
next
  case (Suc n)
  let ?s1 = "s\<lparr>st_trace := st_trace s @ [RandomBatch (batch_size (st_self s)) ex_batch, DoTraining (itr s) ex_batch]\<rparr>"
  from ex_do_training_returns obtain self' h' where
    d: "do_training ex_collab (st_self s) (st_heap s) (itr s) ex_batch = Inr (self', h')"
    by (metis surj_pair)
  from Suc [of "s\<lparr>st_world := st_world s,
       st_trace := st_trace s @ [RandomBatch (batch_size (st_self s)) ex_batch, DoTraining (itr s) ex_batch],
       st_self := self', st_heap := h'\<rparr>"]
  show ?case by (simp add: ex_random_batch d)
qed

lemma ex_train_step_returns: "\<exists>s'. train_step ex_collab s = Inr s'"
proof -
  let ?s2 = "collect_transition ex_collab s"
  let ?r = "if pool_size ex_collab (st_world ?s2) \<ge> min_pool_size (st_self ?s2)
            then update_loop ex_collab (nat (n_updates_per_sample (st_self ?s2))) ?s2 else Inr ?s2"
  have "\<exists>s1. ?r = Inr s1" using ex_update_loop_returns by simp
  then obtain s1 where "?r = Inr s1" by blast
  then show ?thesis by (simp add: train_step_def maybe_update_def)
qed

lemma ex_train_steps_returns: "\<exists>s'. train_steps ex_collab n s = Inr s'"
proof (induction n arbitrary: s)
  case 0
  show ?case by simp
next
  case (Suc n)
  from ex_train_step_returns obtain s1 where "train_step ex_collab s = Inr s1" by blast
  with Suc [of s1] show ?case by simp
qed

lemma ex_epochs_returns: "\<exists>s'. epochs ex_collab epoch k s = Inr s'"
proof (induction k arbitrary: s epoch)
  case 0
  show ?case by simp
next
  case (Suc k)
  from ex_train_steps_returns obtain s1 where
    "train_steps ex_collab (nat (epoch_length (st_self s))) s = Inr s1" by blast
  with Suc [of "epoch + 1" "end_epoch ex_collab s1 epoch"] show ?case by simp
qed

lemma ex_run_returns: "\<exists>s'. run ex_collab ex_args ex_heap0 w = Inr s'"
proof -
  have init: "DDPG_init ex_collab ex_args ex_heap0 = (ex_self, ex_heap)"
    by (simp add: ex_self_def ex_heap_def)
  let ?s0 = "\<lparr>st_self = ex_self, st_heap = ex_heap,
                st_world = pool_new ex_collab (replay_pool_size ex_self) (observation_dim ex_self)
                             (action_dim ex_self) w,
                st_trace = [PoolNew (replay_pool_size ex_self) (observation_dim ex_self) (action_dim ex_self)],
                itr = 0, path_length = 0, path_return = 0, terminal = False, observation = []\<rparr>"
  obtain s1 where sw: "start_worker ex_collab ?s0 = Inr s1"
    by (simp add: start_worker_def Let_def ex_self_config)
  obtain ob w1 where er: "env_reset ex_collab (st_world s1) = (ob, w1)"
    by (cases "env_reset ex_collab (st_world s1)")
  from ex_epochs_returns obtain s3 where
    "epochs ex_collab 0 (nat (n_epoch ex_self))
       (s1\<lparr>st_world := w1, st_trace := st_trace s1 @ [EnvReset], observation := ob\<rparr>) = Inr s3"
    by blast
  then show ?thesis by (simp add: run_def init train_def sw er)
qed

subsection \<open>The scenario's loop states\<close>

lemma ex_state_fields:
  "terminal (ex_state flag term) = term"
  "path_length (ex_state flag term) = 1"
  "path_return (ex_state flag term) = 2"
  "itr (ex_state flag term) = 5"
  "observation (ex_state flag term) = [7]"
  "st_trace (ex_state flag term) = []"
  "st_world (ex_state flag term) = ([], 0)"
  "st_heap (ex_state flag term) = ex_heap"
  "max_path_length (st_self (ex_state flag term)) = 2"
  "scale_reward (st_self (ex_state flag term)) = 3"
  "min_pool_size (st_self (ex_state flag term)) = 1"
  "n_updates_per_sample (st_self (ex_state flag term)) = 2"
  "batch_size (st_self (ex_state flag term)) = 2"
  "plot (st_self (ex_state flag term)) = False"
  "include_horizon_terminal_transitions (st_self (ex_state flag term)) = flag"
  "es_path_returns (st_self (ex_state flag term)) = []"
  by (simp_all add: ex_state_def ex_self_config)
     (simp add: ex_self_def DDPG_init_def deepcopy_def Let_def)

lemma ex_interact_running:
  "interact ex_collab (begin_episode ex_collab (ex_state flag False)) =
     ((ex_state flag False)\<lparr>st_world := ([], 1),
         st_trace := [GetAction 5 [7], EnvStep [1]], terminal := False,
         path_length := 2, path_return := 4\<rparr>, [1], [1], 2)"
  by (simp add: begin_episode_def interact_def ex_state_fields Let_def)
     (simp add: ex_collab_def)

lemma ex_interact_terminal:
  "interact ex_collab (begin_episode ex_collab (ex_state flag True)) =
     ((ex_state flag True)\<lparr>observation := [0], st_world := ([], 1),
         st_trace := [EnvReset, EsReset, GetAction 5 [0], EnvStep [1]],
         st_self := (st_self (ex_state flag True))\<lparr>es_path_returns := [2]\<rparr>,
         terminal := False, path_length := 1, path_return := 2\<rparr>, [1], [1], 2)"
  by (simp add: begin_episode_def interact_def ex_state_fields Let_def ex_collab_def)

subsection \<open>The training loop\<close>

text \<open>
  C3. In a pass through the loop body in which the environment does not signal
  termination and the path length reaches \<open>max_path_length\<close>, the pool receives the
  transition, marked terminal, when \<open>include_horizon_terminal_transitions\<close> is set, and
  receives nothing at all when it is not; either way the episode is over.
\<close>

theorem horizon_transition_stored_iff_flag:
  assumes "interact c (begin_episode c s) = (s1, a, ob', r)"
      and "\<not> terminal s1"
      and "path_length s1 \<ge> max_path_length (st_self s)"
      and "train_step c s = Inr s'"
  shows "added_samples (new_events s s') =
           (if include_horizon_terminal_transitions (st_self s)
            then [(observation s1, a, r * scale_reward (st_self s), True)] else []) \<and>
         st_world (collect_transition c s) =
           (if include_horizon_terminal_transitions (st_self s)
            then pool_add_sample c (observation s1) a (r * scale_reward (st_self s)) True (st_world s1)
            else st_world s1) \<and>
         terminal s'"
proof -
  note i = assms(1)
  from begin_episode_keeps(3) [of c s] obtain l where
    b: "st_self (begin_episode c s) = (st_self s)\<lparr>es_path_returns := l\<rparr>" by blast
  have sf1: "st_self s1 = (st_self s)\<lparr>es_path_returns := l\<rparr>"
    using interact_fields(1) [OF i] b by simp
  note cfg1 = config_kept [OF sf1]
  have o: "observation s1 = observation (begin_episode c s)" using i by (rule interact_fields)
  have 1: "added_samples (new_events s s') =
           (if include_horizon_terminal_transitions (st_self s)
            then [(observation s1, a, r * scale_reward (st_self s), True)] else [])"
    using train_step_added_samples [OF i assms(4)] assms(2,3) o by simp
  have 2: "st_world (collect_transition c s) =
           (if include_horizon_terminal_transitions (st_self s)
            then pool_add_sample c (observation s1) a (r * scale_reward (st_self s)) True (st_world s1)
            else st_world s1)"
    unfolding collect_transition_eq [OF i] store_transition_world cfg1
    using assms(2,3) by simp
  have 3: "terminal s'" using train_step_Inr(5) [OF i assms(4)] assms(3) by simp
  from 1 2 3 show ?thesis by blast
qed

text \<open>
  The scenario, one step before the horizon of 2: with the flag the pool receives the
  transition with reward \<open>2 * 3\<close> and the terminal marker, without it nothing.
\<close>

theorem horizon_transition_stored_iff_flag_witness:
  "(\<exists>s1 s'. interact ex_collab (begin_episode ex_collab (ex_state True False)) = (s1, [1], [1], 2) \<and>
       \<not> terminal s1 \<and> path_length s1 \<ge> max_path_length (st_self (ex_state True False)) \<and>
       train_step ex_collab (ex_state True False) = Inr s' \<and>
       added_samples (new_events (ex_state True False) s') = [([7], [1], 6, True)] \<and> terminal s') \<and>
   (\<exists>s1 s'. interact ex_collab (begin_episode ex_collab (ex_state False False)) = (s1, [1], [1], 2) \<and>
       \<not> terminal s1 \<and> path_length s1 \<ge> max_path_length (st_self (ex_state False False)) \<and>
       train_step ex_collab (ex_state False False) = Inr s' \<and>
       added_samples (new_events (ex_state False False) s') = [] \<and> terminal s')"
proof -
  have one: "\<exists>s1 s'. interact ex_collab (begin_episode ex_collab (ex_state flag False)) = (s1, [1], [1], 2) \<and>
       \<not> terminal s1 \<and> path_length s1 \<ge> max_path_length (st_self (ex_state flag False)) \<and>
       train_step ex_collab (ex_state flag False) = Inr s' \<and>
       added_samples (new_events (ex_state flag False) s') = (if flag then [([7], [1], 6, True)] else []) \<and>
       terminal s'" for flag
  proof -
    let ?s1 = "(ex_state flag False)\<lparr>st_world := ([], 1),
         st_trace := [GetAction 5 [7], EnvStep [1]], terminal := False,
         path_length := 2, path_return := 4\<rparr>"
    have i: "interact ex_collab (begin_episode ex_collab (ex_state flag False)) = (?s1, [1], [1], 2)"
      by (rule ex_interact_running)
    have t: "\<not> terminal ?s1" by simp
    have p: "path_length ?s1 \<ge> max_path_length (st_self (ex_state flag False))"
      by (simp add: ex_state_fields)
    from ex_train_step_returns obtain s' where
      s': "train_step ex_collab (ex_state flag False) = Inr s'" by blast
    from horizon_transition_stored_iff_flag [OF i t p s']
    have "added_samples (new_events (ex_state flag False) s') =
            (if flag then [([7], [1], 6, True)] else [])" and "terminal s'"
      by (simp_all add: ex_state_fields)
    with i t p s' show ?thesis by blast
  qed
  from one [of True] one [of False] show ?thesis by simp
qed

text \<open>
  C7. In a pass through the loop body, \<open>pool.add_sample\<close> is called at most once, and
  what it receives is the observation the action was chosen for, the action the
  exploration strategy returned, the environment's reward times \<open>scale_reward\<close>, and
  the terminal marker of the step: the pool's state after the transition was stored is
  \<open>pool_add_sample\<close> of exactly these on the state the environment step left, and the
  log shows the same call. When the transition is dropped at the horizon, the pool is not
  touched.
\<close>

theorem stored_reward_is_scaled:
  assumes "interact c (begin_episode c s) = (s1, a, ob', r)"
      and "train_step c s = Inr s'"
  shows "(if \<not> terminal s1 \<and> path_length s1 \<ge> max_path_length (st_self s) \<and>
             \<not> include_horizon_terminal_transitions (st_self s)
          then st_world (collect_transition c s) = st_world s1 \<and>
               added_samples (new_events s s') = []
          else st_world (collect_transition c s) =
                 pool_add_sample c (observation (begin_episode c s)) a
                   (r * scale_reward (st_self s)) (terminal s') (st_world s1) \<and>
               added_samples (new_events s s') =
                 [(observation (begin_episode c s), a, r * scale_reward (st_self s), terminal s')]) \<and>
         a = fst (es_get_action c (itr s) (observation (begin_episode c s))
                    (get_param_values (st_heap s) (policy (st_self s))) (st_world (begin_episode c s))) \<and>
         r = fst (snd (fst (env_step c a (snd (es_get_action c (itr s) (observation (begin_episode c s))
                    (get_param_values (st_heap s) (policy (st_self s))) (st_world (begin_episode c s))))))) \<and>
         st_world s1 = (if plot (st_self s)
            then env_render c (snd (env_step c a (snd (es_get_action c (itr s) (observation (begin_episode c s))
                    (get_param_values (st_heap s) (policy (st_self s))) (st_world (begin_episode c s))))))
            else snd (env_step c a (snd (es_get_action c (itr s) (observation (begin_episode c s))
                    (get_param_values (st_heap s) (policy (st_self s))) (st_world (begin_episode c s))))))"
proof -
  note i = assms(1)
  have tm: "terminal s' = (terminal s1 \<or> path_length s1 \<ge> max_path_length (st_self s))"
    using i assms(2) by (rule train_step_Inr)
  from begin_episode_keeps(3) [of c s] obtain l where
    b: "st_self (begin_episode c s) = (st_self s)\<lparr>es_path_returns := l\<rparr>" by blast
  have sf1: "st_self s1 = (st_self s)\<lparr>es_path_returns := l\<rparr>"
    using interact_fields(1) [OF i] b by simp
  note cfg1 = config_kept [OF sf1]
  have o: "observation s1 = observation (begin_episode c s)" using i by (rule interact_fields)
  have w: "st_world (collect_transition c s) =
       (if \<not> terminal s1 \<and> path_length s1 \<ge> max_path_length (st_self s) \<and>
           \<not> include_horizon_terminal_transitions (st_self s)
        then st_world s1
        else pool_add_sample c (observation (begin_episode c s)) a (r * scale_reward (st_self s))
                (terminal s') (st_world s1))"
    unfolding collect_transition_eq [OF i] store_transition_world cfg1 o tm ..
  have 1: "if \<not> terminal s1 \<and> path_length s1 \<ge> max_path_length (st_self s) \<and>
             \<not> include_horizon_terminal_transitions (st_self s)
          then st_world (collect_transition c s) = st_world s1 \<and>
               added_samples (new_events s s') = []
          else st_world (collect_transition c s) =
                 pool_add_sample c (observation (begin_episode c s)) a
                   (r * scale_reward (st_self s)) (terminal s') (st_world s1) \<and>
               added_samples (new_events s s') =
                 [(observation (begin_episode c s), a, r * scale_reward (st_self s), terminal s')]"
    unfolding w tm train_step_added_samples [OF i assms(2)] by simp
  have k: "itr (begin_episode c s) = itr s" "st_heap (begin_episode c s) = st_heap s"
    by (simp_all add: begin_episode_keeps)
  have pol: "policy (st_self (begin_episode c s)) = policy (st_self s)"
    "plot (st_self (begin_episode c s)) = plot (st_self s)" unfolding b by simp_all
  have 3: "a = fst (es_get_action c (itr s) (observation (begin_episode c s))
                    (get_param_values (st_heap s) (policy (st_self s))) (st_world (begin_episode c s)))"
    using interact_outputs(1) [OF i] unfolding k pol .
  have "(ob', r, terminal s1) =
           fst (env_step c a (snd (es_get_action c (itr s) (observation (begin_episode c s))
                  (get_param_values (st_heap s) (policy (st_self s))) (st_world (begin_episode c s)))))"
    using interact_outputs(2) [OF i] unfolding k pol .
  then have 4: "r = fst (snd (fst (env_step c a (snd (es_get_action c (itr s) (observation (begin_episode c s))
                    (get_param_values (st_heap s) (policy (st_self s))) (st_world (begin_episode c s)))))))"
    by (metis fst_conv snd_conv)
  have 5: "st_world s1 = (if plot (st_self s)
            then env_render c (snd (env_step c a (snd (es_get_action c (itr s) (observation (begin_episode c s))
                    (get_param_values (st_heap s) (policy (st_self s))) (st_world (begin_episode c s))))))
            else snd (env_step c a (snd (es_get_action c (itr s) (observation (begin_episode c s))
                    (get_param_values (st_heap s) (policy (st_self s))) (st_world (begin_episode c s))))))"
    using interact_world [OF i] unfolding k pol .
  from 1 3 4 5 show ?thesis by blast
qed

text \<open>
  The scenario with scale 3: the environment pays 2, and the pool, empty before, holds the
  one sample with reward 6.
\<close>

theorem stored_reward_is_scaled_witness:
  "\<exists>s1 s'. interact ex_collab (begin_episode ex_collab (ex_state True False)) = (s1, [1], [1], 2) \<and>
       train_step ex_collab (ex_state True False) = Inr s' \<and>
       scale_reward (st_self (ex_state True False)) = 3 \<and>
       st_world s1 = ([], 1) \<and>
       st_world (collect_transition ex_collab (ex_state True False)) = ([([7], [1], 6, True)], 1) \<and>
       added_samples (new_events (ex_state True False) s') = [([7], [1], 6, True)]"
proof -
  let ?s1 = "(ex_state True False)\<lparr>st_world := ([], 1),
         st_trace := [GetAction 5 [7], EnvStep [1]], terminal := False,
         path_length := 2, path_return := 4\<rparr>"
  have i: "interact ex_collab (begin_episode ex_collab (ex_state True False)) = (?s1, [1], [1], 2)"
    by (rule ex_interact_running)
  from ex_train_step_returns obtain s' where
    s': "train_step ex_collab (ex_state True False) = Inr s'" by blast
  have tm: "terminal s'" using train_step_Inr(5) [OF i s'] by (simp add: ex_state_fields)
  have ob: "observation (begin_episode ex_collab (ex_state True False)) = [7]"
    by (simp add: begin_episode_running ex_state_fields)
  have v: "scale_reward (st_self (ex_state True False)) = 3"
    "include_horizon_terminal_transitions (st_self (ex_state True False))"
    "2 * (3::real) = 6" "st_world ?s1 = ([], 1)"
    by (simp_all add: ex_state_fields)
  have flag: "\<not> (\<not> terminal ?s1 \<and> path_length ?s1 \<ge> max_path_length (st_self (ex_state True False)) \<and>
             \<not> include_horizon_terminal_transitions (st_self (ex_state True False)))"
    using v(2) by simp
  from stored_reward_is_scaled [OF i s'] flag
  have "st_world (collect_transition ex_collab (ex_state True False)) =
          pool_add_sample ex_collab (observation (begin_episode ex_collab (ex_state True False))) [1]
            (2 * scale_reward (st_self (ex_state True False))) (terminal s') (st_world ?s1)"
    and "added_samples (new_events (ex_state True False) s') =
          [(observation (begin_episode ex_collab (ex_state True False)), [1],
            2 * scale_reward (st_self (ex_state True False)), terminal s')]"
    by presburger+
  then have "st_world (collect_transition ex_collab (ex_state True False)) =
          pool_add_sample ex_collab [7] [1] 6 True ([], 1)"
    and a: "added_samples (new_events (ex_state True False) s') = [([7], [1], 6, True)]"
    unfolding ob v using tm by simp_all
  then have w: "st_world (collect_transition ex_collab (ex_state True False)) = ([([7], [1], 6, True)], 1)"
    by (simp add: ex_collab_def)
  from i s' v(1) v(4) w a show ?thesis by blast
qed

lemma repeat_updates_one:
  assumes "repeat_updates c i n (Suc 0) (self, h, w) = Inr ((self', h', w'), bs)"
  shows "do_training c self h i (fst (pool_random_batch c n w)) = Inr (self', h') \<and>
         w' = snd (pool_random_batch c n w) \<and> bs = [fst (pool_random_batch c n w)]"
proof -
  obtain b w1 where rb: "pool_random_batch c n w = (b, w1)"
    by (cases "pool_random_batch c n w")
  show ?thesis
  proof (cases "do_training c self h i b")
    case (Inl e)
    with assms rb show ?thesis by simp
  next
    case (Inr x)
    obtain x1 x2 where x: "x = (x1, x2)" by (cases x)
    from assms rb Inr x show ?thesis by simp
  qed
qed

lemma ex_flag_do_training_first:
  "do_training ex_collab (ex_self\<lparr>include_horizon_terminal_transitions := flag\<rparr>) ex_heap i ex_batch =
     Inr (ex_self\<lparr>include_horizon_terminal_transitions := flag\<rparr>,
       [\<lparr>param_values = [[3 / 4]], grad = Some [[1]]\<rparr>, \<lparr>param_values = [[3 / 2]], grad = Some [[2]]\<rparr>,
        \<lparr>param_values = [[15 / 8]], grad = None\<rparr>, \<lparr>param_values = [[15 / 16]], grad = None\<rparr>])"
proof -
  let ?self = "ex_self\<lparr>include_horizon_terminal_transitions := flag\<rparr>"
  have "\<exists>ys. regression_targets ex_collab ?self ex_heap ex_batch = Inr ys"
    by (simp add: regression_targets_def ex_collab_def ex_batch_def broadcast2_def Let_def)
  then obtain ys where ys: "regression_targets ex_collab ?self ex_heap ex_batch = Inr ys" by blast
  have q: "train_qf ex_collab ?self ex_heap ys (observations ex_batch) (actions ex_batch) =
     (?self, [\<lparr>param_values = [[1]], grad = None\<rparr>, \<lparr>param_values = [[3 / 2]], grad = Some [[1]]\<rparr>,
                \<lparr>param_values = [[2]], grad = None\<rparr>, \<lparr>param_values = [[1]], grad = None\<rparr>])"
    by (simp add: train_qf_def Let_def ex_self_refs ex_self_optimizers ex_heap_eval zero_grad_def
        accumulate_grad_def opt_step_def ex_sgd_def ex_collab_def get_param_values_def)
  have p: "train_policy ex_collab ?self
     [\<lparr>param_values = [[1]], grad = None\<rparr>, \<lparr>param_values = [[3 / 2]], grad = Some [[1]]\<rparr>,
      \<lparr>param_values = [[2]], grad = None\<rparr>, \<lparr>param_values = [[1]], grad = None\<rparr>]
     (observations ex_batch) =
     (?self, [\<lparr>param_values = [[3 / 4]], grad = Some [[1]]\<rparr>, \<lparr>param_values = [[3 / 2]], grad = Some [[2]]\<rparr>,
                \<lparr>param_values = [[2]], grad = None\<rparr>, \<lparr>param_values = [[1]], grad = None\<rparr>])"
    by (simp add: train_policy_def Let_def ex_self_refs ex_self_optimizers zero_grad_def
        accumulate_grad_def opt_step_def ex_sgd_def ex_collab_def get_param_values_def tensor_list_add_def)
  have t: "soft_target_sync ?self
     [\<lparr>param_values = [[3 / 4]], grad = Some [[1]]\<rparr>, \<lparr>param_values = [[3 / 2]], grad = Some [[2]]\<rparr>,
      \<lparr>param_values = [[2]], grad = None\<rparr>, \<lparr>param_values = [[1]], grad = None\<rparr>] =
     [\<lparr>param_values = [[3 / 4]], grad = Some [[1]]\<rparr>, \<lparr>param_values = [[3 / 2]], grad = Some [[2]]\<rparr>,
      \<lparr>param_values = [[15 / 8]], grad = None\<rparr>, \<lparr>param_values = [[15 / 16]], grad = None\<rparr>]"
    by (simp add: soft_target_sync_def Let_def ex_self_refs ex_self_config set_param_values_def
        get_param_values_def running_average_tensor_list_def running_average_tensor_def)
  show ?thesis unfolding do_training_def ys by (simp add: q p t)
qed

lemma ex_flag_do_training_second:
  "do_training ex_collab (ex_self\<lparr>include_horizon_terminal_transitions := flag\<rparr>)
       [\<lparr>param_values = [[3 / 4]], grad = Some [[1]]\<rparr>, \<lparr>param_values = [[3 / 2]], grad = Some [[2]]\<rparr>,
        \<lparr>param_values = [[15 / 8]], grad = None\<rparr>, \<lparr>param_values = [[15 / 16]], grad = None\<rparr>]
       i ex_batch =
     Inr (ex_self\<lparr>include_horizon_terminal_transitions := flag\<rparr>,
       [\<lparr>param_values = [[1 / 2]], grad = Some [[1]]\<rparr>, \<lparr>param_values = [[1]], grad = Some [[2]]\<rparr>,
        \<lparr>param_values = [[53 / 32]], grad = None\<rparr>, \<lparr>param_values = [[53 / 64]], grad = None\<rparr>])"
proof -
  let ?self = "ex_self\<lparr>include_horizon_terminal_transitions := flag\<rparr>"
  let ?h = "[\<lparr>param_values = [[3 / 4]], grad = Some [[1]]\<rparr>, \<lparr>param_values = [[3 / 2]], grad = Some [[2]]\<rparr>,
        \<lparr>param_values = [[15 / 8]], grad = None\<rparr>, \<lparr>param_values = [[15 / 16]], grad = None\<rparr>]"
  have "\<exists>ys. regression_targets ex_collab ?self ?h ex_batch = Inr ys"
    by (simp add: regression_targets_def ex_collab_def ex_batch_def broadcast2_def Let_def)
  then obtain ys where ys: "regression_targets ex_collab ?self ?h ex_batch = Inr ys" by blast
  have q: "train_qf ex_collab ?self ?h ys (observations ex_batch) (actions ex_batch) =
     (?self, [\<lparr>param_values = [[3 / 4]], grad = Some [[1]]\<rparr>, \<lparr>param_values = [[1]], grad = Some [[1]]\<rparr>,
        \<lparr>param_values = [[15 / 8]], grad = None\<rparr>, \<lparr>param_values = [[15 / 16]], grad = None\<rparr>])"
    by (simp add: train_qf_def Let_def ex_self_refs ex_self_optimizers zero_grad_def
        accumulate_grad_def opt_step_def ex_sgd_def ex_collab_def get_param_values_def tensor_list_add_def)
  have p: "train_policy ex_collab ?self
     [\<lparr>param_values = [[3 / 4]], grad = Some [[1]]\<rparr>, \<lparr>param_values = [[1]], grad = Some [[1]]\<rparr>,
        \<lparr>param_values = [[15 / 8]], grad = None\<rparr>, \<lparr>param_values = [[15 / 16]], grad = None\<rparr>]
     (observations ex_batch) =
     (?self, [\<lparr>param_values = [[1 / 2]], grad = Some [[1]]\<rparr>, \<lparr>param_values = [[1]], grad = Some [[2]]\<rparr>,
        \<lparr>param_values = [[15 / 8]], grad = None\<rparr>, \<lparr>param_values = [[15 / 16]], grad = None\<rparr>])"
    by (simp add: train_policy_def Let_def ex_self_refs ex_self_optimizers zero_grad_def
        accumulate_grad_def opt_step_def ex_sgd_def ex_collab_def get_param_values_def tensor_list_add_def)
  have t: "soft_target_sync ?self
     [\<lparr>param_values = [[1 / 2]], grad = Some [[1]]\<rparr>, \<lparr>param_values = [[1]], grad = Some [[2]]\<rparr>,
        \<lparr>param_values = [[15 / 8]], grad = None\<rparr>, \<lparr>param_values = [[15 / 16]], grad = None\<rparr>] =
     [\<lparr>param_values = [[1 / 2]], grad = Some [[1]]\<rparr>, \<lparr>param_values = [[1]], grad = Some [[2]]\<rparr>,
        \<lparr>param_values = [[53 / 32]], grad = None\<rparr>, \<lparr>param_values = [[53 / 64]], grad = None\<rparr>]"
    by (simp add: soft_target_sync_def Let_def ex_self_refs ex_self_config set_param_values_def
        get_param_values_def running_average_tensor_list_def running_average_tensor_def)
  show ?thesis unfolding do_training_def ys by (simp add: q p t)
qed

text \<open>
  C5. In a pass through the loop body that returns, the pool size is read once, after
  the transition was stored or dropped. If it is at least \<open>min_pool_size\<close>, the rest of
  the pass is \<open>n_updates_per_sample\<close> rounds (none for a negative number) of one call
  \<open>pool.random_batch(batch_size)\<close> followed by one call of \<open>do_training\<close> on the batch
  just returned, with the current \<open>itr\<close>: the trainer, the store and the pool at the end
  of the pass are what these calls, one after the other, leave behind, and the log shows
  the calls. With one update per sample this is the single call of \<open>do_training\<close> on
  the batch the pool returns. If the pool is smaller, the pass calls neither and leaves
  trainer, store and pool as they were.
\<close>

theorem updates_per_environment_step:
  assumes "train_step c s = Inr s'"
  shows "(pool_size c (st_world (collect_transition c s)) \<ge> min_pool_size (st_self s) \<longrightarrow>
            (\<exists>bs. length bs = nat (n_updates_per_sample (st_self s)) \<and>
                  repeat_updates c (itr s) (batch_size (st_self s)) (nat (n_updates_per_sample (st_self s)))
                    (st_self (collect_transition c s), st_heap s, st_world (collect_transition c s)) =
                    Inr ((st_self s', st_heap s', st_world s'), bs) \<and>
                  drop (length (st_trace (collect_transition c s))) (st_trace s') =
                    concat (map (\<lambda>b. [RandomBatch (batch_size (st_self s)) b, DoTraining (itr s) b]) bs) \<and>
                  training_calls (new_events s s') = map (\<lambda>b. (itr s, b)) bs \<and>
                  batch_requests (new_events s s') = map (\<lambda>b. (batch_size (st_self s), b)) bs)) \<and>
         (pool_size c (st_world (collect_transition c s)) \<ge> min_pool_size (st_self s) \<and>
          n_updates_per_sample (st_self s) = 1 \<longrightarrow>
            do_training c (st_self (collect_transition c s)) (st_heap s) (itr s)
              (fst (pool_random_batch c (batch_size (st_self s)) (st_world (collect_transition c s)))) =
              Inr (st_self s', st_heap s') \<and>
            st_world s' = snd (pool_random_batch c (batch_size (st_self s)) (st_world (collect_transition c s)))) \<and>
         (pool_size c (st_world (collect_transition c s)) < min_pool_size (st_self s) \<longrightarrow>
            training_calls (new_events s s') = [] \<and> batch_requests (new_events s s') = [] \<and>
            st_trace s' = st_trace (collect_transition c s) \<and> st_heap s' = st_heap s \<and>
            st_self s' = st_self (collect_transition c s) \<and>
            st_world s' = st_world (collect_transition c s))"
proof -
  obtain s1 a ob' r where i: "interact c (begin_episode c s) = (s1, a, ob', r)"
    by (cases "interact c (begin_episode c s)") auto
  let ?s2 = "collect_transition c s"
  have m: "maybe_update c ?s2 = Inr s'" using assms by (simp add: train_step_def)
  from begin_episode_keeps(3) [of c s] obtain l where
    "st_self (begin_episode c s) = (st_self s)\<lparr>es_path_returns := l\<rparr>" by blast
  then have sf2: "st_self ?s2 = (st_self s)\<lparr>es_path_returns := l\<rparr>"
    using collect_transition_fields(3) [OF i] by simp
  note cfg2 = config_kept [OF sf2]
  have i2: "itr ?s2 = itr s" using i by (rule collect_transition_fields)
  have h2: "st_heap ?s2 = st_heap s" by (rule collect_transition_heap)
  obtain es where es: "st_trace ?s2 = st_trace s @ es" and tc: "training_calls es = []"
    and br: "batch_requests es = []"
  proof -
    let ?es = "(if terminal s then [EnvReset, EsReset] else []) @
           [GetAction (itr s) (observation (begin_episode c s)), EnvStep a] @
           (if plot (st_self s1) then [EnvRender] else []) @
           (if \<not> terminal s1 \<and> path_length s1 \<ge> max_path_length (st_self s1) \<and>
               \<not> include_horizon_terminal_transitions (st_self s1)
            then []
            else [AddSample (observation (begin_episode c s)) a (r * scale_reward (st_self s1))
                    (terminal s1 \<or> path_length s1 \<ge> max_path_length (st_self s1))])"
    have "st_trace ?s2 = st_trace s @ ?es" using collect_transition_trace [OF i] by simp
    moreover have "training_calls ?es = []" "batch_requests ?es = []" by simp_all
    ultimately show ?thesis using that by blast
  qed
  have warm: "\<exists>bs. length bs = nat (n_updates_per_sample (st_self s)) \<and>
                  repeat_updates c (itr s) (batch_size (st_self s)) (nat (n_updates_per_sample (st_self s)))
                    (st_self ?s2, st_heap s, st_world ?s2) =
                    Inr ((st_self s', st_heap s', st_world s'), bs) \<and>
                  drop (length (st_trace ?s2)) (st_trace s') =
                    concat (map (\<lambda>b. [RandomBatch (batch_size (st_self s)) b, DoTraining (itr s) b]) bs) \<and>
                  training_calls (new_events s s') = map (\<lambda>b. (itr s, b)) bs \<and>
                  batch_requests (new_events s s') = map (\<lambda>b. (batch_size (st_self s), b)) bs"
    if ge: "pool_size c (st_world ?s2) \<ge> min_pool_size (st_self s)"
  proof -
    have "pool_size c (st_world ?s2) \<ge> min_pool_size (st_self ?s2)" using ge cfg2 by simp
    from maybe_update_repeat(1) [OF m this] obtain bs where
      l: "length bs = nat (n_updates_per_sample (st_self s))"
      and r: "repeat_updates c (itr s) (batch_size (st_self s)) (nat (n_updates_per_sample (st_self s)))
                    (st_self ?s2, st_heap s, st_world ?s2) =
                    Inr ((st_self s', st_heap s', st_world s'), bs)"
      and t: "st_trace s' = st_trace ?s2 @
                concat (map (\<lambda>b. [RandomBatch (batch_size (st_self s)) b, DoTraining (itr s) b]) bs)"
      unfolding cfg2 i2 h2 by blast
    have d: "drop (length (st_trace ?s2)) (st_trace s') =
                    concat (map (\<lambda>b. [RandomBatch (batch_size (st_self s)) b, DoTraining (itr s) b]) bs)"
      unfolding t by simp
    have n: "new_events s s' = es @
                concat (map (\<lambda>b. [RandomBatch (batch_size (st_self s)) b, DoTraining (itr s) b]) bs)"
      unfolding new_events_def t es by simp
    have c1: "training_calls (new_events s s') = map (\<lambda>b. (itr s, b)) bs"
      unfolding n using tc by simp
    have c2: "batch_requests (new_events s s') = map (\<lambda>b. (batch_size (st_self s), b)) bs"
      unfolding n using br by simp
    from l r d c1 c2 show ?thesis by blast
  qed
  have single: "do_training c (st_self ?s2) (st_heap s) (itr s)
              (fst (pool_random_batch c (batch_size (st_self s)) (st_world ?s2))) =
              Inr (st_self s', st_heap s') \<and>
            st_world s' = snd (pool_random_batch c (batch_size (st_self s)) (st_world ?s2))"
    if ge: "pool_size c (st_world ?s2) \<ge> min_pool_size (st_self s)"
      and one: "n_updates_per_sample (st_self s) = 1"
  proof -
    from warm [OF ge] obtain bs where
      "repeat_updates c (itr s) (batch_size (st_self s)) (nat (n_updates_per_sample (st_self s)))
                    (st_self ?s2, st_heap s, st_world ?s2) =
                    Inr ((st_self s', st_heap s', st_world s'), bs)" by blast
    then have "repeat_updates c (itr s) (batch_size (st_self s)) (Suc 0)
                    (st_self ?s2, st_heap s, st_world ?s2) =
                    Inr ((st_self s', st_heap s', st_world s'), bs)" using one by simp
    from repeat_updates_one [OF this] show ?thesis by blast
  qed
  have cold: "training_calls (new_events s s') = [] \<and> batch_requests (new_events s s') = [] \<and>
            st_trace s' = st_trace ?s2 \<and> st_heap s' = st_heap s \<and>
            st_self s' = st_self ?s2 \<and> st_world s' = st_world ?s2"
    if lt: "pool_size c (st_world ?s2) < min_pool_size (st_self s)"
  proof -
    have "\<not> pool_size c (st_world ?s2) \<ge> min_pool_size (st_self ?s2)" using lt cfg2 by simp
    from maybe_update_repeat(2) [OF m this] have k: "st_self s' = st_self ?s2" "st_heap s' = st_heap s"
      "st_world s' = st_world ?s2" "st_trace s' = st_trace ?s2"
      unfolding h2 by simp_all
    have n: "new_events s s' = es" unfolding new_events_def k es by simp
    show ?thesis unfolding n using tc br k by simp
  qed
  from warm single cold show ?thesis by blast
qed

text \<open>
  The scenario with \<open>min_pool_size = 1\<close> and two updates per sample: the pass that stores
  its transition trains twice (the critic goes from 2 to 3/2 to 1, its target from 2 to
  15/8 to 53/32), the pass that drops it (the pool staying empty) not at all.
\<close>

theorem updates_per_environment_step_witness:
  "(\<exists>s'. train_step ex_collab (ex_state True False) = Inr s' \<and>
       pool_size ex_collab (st_world (collect_transition ex_collab (ex_state True False))) = 1 \<and>
       min_pool_size (st_self (ex_state True False)) = 1 \<and>
       length (training_calls (new_events (ex_state True False) s')) = 2 \<and>
       length (batch_requests (new_events (ex_state True False) s')) = 2 \<and>
       st_heap (ex_state True False) =
         [\<lparr>param_values = [[1]], grad = None\<rparr>, \<lparr>param_values = [[2]], grad = None\<rparr>,
          \<lparr>param_values = [[2]], grad = None\<rparr>, \<lparr>param_values = [[1]], grad = None\<rparr>] \<and>
       st_heap s' =
         [\<lparr>param_values = [[1 / 2]], grad = Some [[1]]\<rparr>, \<lparr>param_values = [[1]], grad = Some [[2]]\<rparr>,
          \<lparr>param_values = [[53 / 32]], grad = None\<rparr>, \<lparr>param_values = [[53 / 64]], grad = None\<rparr>]) \<and>
   (\<exists>s'. train_step ex_collab (ex_state False False) = Inr s' \<and>
       pool_size ex_collab (st_world (collect_transition ex_collab (ex_state False False))) = 0 \<and>
       min_pool_size (st_self (ex_state False False)) = 1 \<and>
       training_calls (new_events (ex_state False False) s') = [] \<and>
       st_heap s' = st_heap (ex_state False False))"
proof -
  have w: "pool_size ex_collab (st_world (collect_transition ex_collab (ex_state flag False))) =
             (if flag then 1 else 0)" for flag
    unfolding collect_transition_eq [OF ex_interact_running] store_transition_world
    by (simp add: ex_state_fields) (simp add: ex_collab_def)
  have m: "min_pool_size (st_self (ex_state flag False)) = 1"
    "nat (n_updates_per_sample (st_self (ex_state flag False))) = Suc (Suc 0)"
    "st_heap (ex_state flag False) = ex_heap" for flag
    by (simp_all add: ex_state_fields)
  have sf: "st_self (collect_transition ex_collab (ex_state True False)) =
              ex_self\<lparr>include_horizon_terminal_transitions := True\<rparr>"
    unfolding collect_transition_eq [OF ex_interact_running] store_transition_fields
    by (simp add: ex_state_def)
  from ex_train_step_returns obtain s' where
    s': "train_step ex_collab (ex_state True False) = Inr s'" by blast
  from ex_train_step_returns obtain s'' where
    s'': "train_step ex_collab (ex_state False False) = Inr s''" by blast
  from updates_per_environment_step [OF s'] w [of True] m(1) [of True]
  obtain bs where l: "length bs = nat (n_updates_per_sample (st_self (ex_state True False)))"
    and r: "repeat_updates ex_collab (itr (ex_state True False)) (batch_size (st_self (ex_state True False)))
              (nat (n_updates_per_sample (st_self (ex_state True False))))
              (st_self (collect_transition ex_collab (ex_state True False)), st_heap (ex_state True False),
               st_world (collect_transition ex_collab (ex_state True False))) =
              Inr ((st_self s', st_heap s', st_world s'), bs)"
    and tc: "training_calls (new_events (ex_state True False) s') = map (\<lambda>b. (itr (ex_state True False), b)) bs"
    and br: "batch_requests (new_events (ex_state True False) s') =
       map (\<lambda>b. (batch_size (st_self (ex_state True False)), b)) bs"
    by auto
  have a: "length (training_calls (new_events (ex_state True False) s')) = 2"
    "length (batch_requests (new_events (ex_state True False) s')) = 2"
    unfolding tc br using l m(2) [of True] by simp_all
  have "st_heap s' =
         [\<lparr>param_values = [[1 / 2]], grad = Some [[1]]\<rparr>, \<lparr>param_values = [[1]], grad = Some [[2]]\<rparr>,
          \<lparr>param_values = [[53 / 32]], grad = None\<rparr>, \<lparr>param_values = [[53 / 64]], grad = None\<rparr>]"
    using r unfolding m sf
    by (simp add: ex_random_batch ex_flag_do_training_first ex_flag_do_training_second)
  then have hp: "st_heap (ex_state True False) =
         [\<lparr>param_values = [[1]], grad = None\<rparr>, \<lparr>param_values = [[2]], grad = None\<rparr>,
          \<lparr>param_values = [[2]], grad = None\<rparr>, \<lparr>param_values = [[1]], grad = None\<rparr>] \<and>
       st_heap s' =
         [\<lparr>param_values = [[1 / 2]], grad = Some [[1]]\<rparr>, \<lparr>param_values = [[1]], grad = Some [[2]]\<rparr>,
          \<lparr>param_values = [[53 / 32]], grad = None\<rparr>, \<lparr>param_values = [[53 / 64]], grad = None\<rparr>]"
    unfolding m ex_heap_eval by simp
  from updates_per_environment_step [OF s''] w [of False] m(1) [of False]
  have b: "training_calls (new_events (ex_state False False) s'') = []"
    "st_heap s'' = st_heap (ex_state False False)"
    by simp_all
  have first: "\<exists>s'. train_step ex_collab (ex_state True False) = Inr s' \<and>
       pool_size ex_collab (st_world (collect_transition ex_collab (ex_state True False))) = 1 \<and>
       min_pool_size (st_self (ex_state True False)) = 1 \<and>
       length (training_calls (new_events (ex_state True False) s')) = 2 \<and>
       length (batch_requests (new_events (ex_state True False) s')) = 2 \<and>
       st_heap (ex_state True False) =
         [\<lparr>param_values = [[1]], grad = None\<rparr>, \<lparr>param_values = [[2]], grad = None\<rparr>,
          \<lparr>param_values = [[2]], grad = None\<rparr>, \<lparr>param_values = [[1]], grad = None\<rparr>] \<and>
       st_heap s' =
         [\<lparr>param_values = [[1 / 2]], grad = Some [[1]]\<rparr>, \<lparr>param_values = [[1]], grad = Some [[2]]\<rparr>,
          \<lparr>param_values = [[53 / 32]], grad = None\<rparr>, \<lparr>param_values = [[53 / 64]], grad = None\<rparr>]"
    using s' a hp w [of True] m(1) [of True] by (intro exI [of _ s']) simp
  have second: "\<exists>s'. train_step ex_collab (ex_state False False) = Inr s' \<and>
       pool_size ex_collab (st_world (collect_transition ex_collab (ex_state False False))) = 0 \<and>
       min_pool_size (st_self (ex_state False False)) = 1 \<and>
       training_calls (new_events (ex_state False False) s') = [] \<and>
       st_heap s' = st_heap (ex_state False False)"
    using s'' b w [of False] m(1) [of False] by (intro exI [of _ s'']) simp
  from first second show ?thesis by blast
qed

text \<open>
  C6. A pass through the loop body that starts with \<open>terminal\<close> set first resets the
  environment and the exploration strategy, records the finished path's return and sets
  \<open>path_length\<close> and \<open>path_return\<close> to 0; only then is the action chosen, for the
  observation the reset returned. At the end of the pass the path has length 1 and its
  return is the reward of this step.
\<close>

theorem episode_reset_after_terminal:
  assumes "terminal s"
      and "interact c (begin_episode c s) = (s1, a, ob', r)"
      and "train_step c s = Inr s'"
  shows "path_length (begin_episode c s) = 0 \<and> path_return (begin_episode c s) = 0 \<and>
         observation (begin_episode c s) = fst (env_reset c (st_world s)) \<and>
         take 4 (new_events s s') =
           [EnvReset, EsReset, GetAction (itr s) (fst (env_reset c (st_world s))), EnvStep a] \<and>
         a = fst (es_get_action c (itr s) (fst (env_reset c (st_world s)))
                    (get_param_values (st_heap s) (policy (st_self s)))
                    (es_reset c (snd (env_reset c (st_world s))))) \<and>
         path_length s' = 1 \<and> path_return s' = r \<and>
         es_path_returns (st_self s') = es_path_returns (st_self s) @ [path_return s]"
proof -
  note b = begin_episode_terminal [OF assms(1), of c]
  note i = assms(2)
  from train_step_new_events [OF i assms(3)] obtain bs where
    n: "new_events s s' =
             (if terminal s then [EnvReset, EsReset] else []) @
             [GetAction (itr s) (observation (begin_episode c s)), EnvStep a] @
             (if plot (st_self s) then [EnvRender] else []) @
             (if \<not> terminal s1 \<and> path_length s1 \<ge> max_path_length (st_self s) \<and>
                 \<not> include_horizon_terminal_transitions (st_self s)
              then []
              else [AddSample (observation (begin_episode c s)) a (r * scale_reward (st_self s))
                      (terminal s1 \<or> path_length s1 \<ge> max_path_length (st_self s))]) @
             concat (map (\<lambda>b. [RandomBatch (batch_size (st_self s)) b, DoTraining (itr s) b]) bs)"
    by blast
  have 1: "take 4 (new_events s s') =
           [EnvReset, EsReset, GetAction (itr s) (fst (env_reset c (st_world s))), EnvStep a]"
    unfolding n using assms(1) b(3) by simp
  have k: "itr (begin_episode c s) = itr s" "st_heap (begin_episode c s) = st_heap s"
    by (simp_all add: begin_episode_keeps)
  from begin_episode_keeps(3) [of c s] obtain l where
    "st_self (begin_episode c s) = (st_self s)\<lparr>es_path_returns := l\<rparr>" by blast
  then have pol: "policy (st_self (begin_episode c s)) = policy (st_self s)" by simp
  have 2: "a = fst (es_get_action c (itr s) (fst (env_reset c (st_world s)))
                    (get_param_values (st_heap s) (policy (st_self s)))
                    (es_reset c (snd (env_reset c (st_world s)))))"
    using interact_outputs(1) [OF i] unfolding k pol b(3) b(5) .
  have 3: "path_length s' = 1" using train_step_Inr(3) [OF i assms(3)] b(1) by simp
  have 4: "path_return s' = r" using train_step_Inr(4) [OF i assms(3)] b(2) by simp
  have 5: "es_path_returns (st_self s') = es_path_returns (st_self s) @ [path_return s]"
    using train_step_Inr(7) [OF i assms(3)] b(6) by simp
  from b(1) b(2) b(3) 1 2 3 4 5 show ?thesis by blast
qed

text \<open>
  The scenario, entered with \<open>terminal\<close> set, path length 1 and return 2: the pass ends
  with path length 1 and return 2 (this step's reward), the old return 2 on record.
\<close>

theorem episode_reset_after_terminal_witness:
  "terminal (ex_state False True) \<and> path_length (ex_state False True) = 1 \<and>
   (\<exists>s1 s'. interact ex_collab (begin_episode ex_collab (ex_state False True)) = (s1, [1], [1], 2) \<and>
      train_step ex_collab (ex_state False True) = Inr s' \<and>
      path_length (begin_episode ex_collab (ex_state False True)) = 0 \<and>
      path_return (begin_episode ex_collab (ex_state False True)) = 0 \<and>
      take 4 (new_events (ex_state False True) s') = [EnvReset, EsReset, GetAction 5 [0], EnvStep [1]] \<and>
      path_length s' = 1 \<and> path_return s' = 2 \<and> es_path_returns (st_self s') = [2])"
proof -
  let ?s1 = "(ex_state False True)\<lparr>observation := [0], st_world := ([], 1),
         st_trace := [EnvReset, EsReset, GetAction 5 [0], EnvStep [1]],
         st_self := (st_self (ex_state False True))\<lparr>es_path_returns := [2]\<rparr>,
         terminal := False, path_length := 1, path_return := 2\<rparr>"
  have t: "terminal (ex_state False True)" "path_length (ex_state False True) = 1"
    by (simp_all add: ex_state_fields)
  have i: "interact ex_collab (begin_episode ex_collab (ex_state False True)) = (?s1, [1], [1], 2)"
    by (rule ex_interact_terminal)
  from ex_train_step_returns obtain s' where
    s': "train_step ex_collab (ex_state False True) = Inr s'" by blast
  have r: "fst (env_reset ex_collab (st_world (ex_state False True))) = [0]"
    by (simp add: ex_collab_def)
  from episode_reset_after_terminal [OF t(1) i s']
  have "path_length (begin_episode ex_collab (ex_state False True)) = 0"
    "path_return (begin_episode ex_collab (ex_state False True)) = 0"
    "take 4 (new_events (ex_state False True) s') =
       [EnvReset, EsReset, GetAction 5 [0], EnvStep [1]]"
    "path_length s' = 1" "path_return s' = 2" "es_path_returns (st_self s') = [2]"
    unfolding r by (simp_all add: ex_state_fields)
  with t i s' show ?thesis by blast
qed

subsection \<open>The store over a run\<close>

lemma repeat_updates_trained:
  "repeat_updates c i n k (self, h, w) = Inr ((self', h', w'), bs) \<Longrightarrow>
   trained_from c x (self, h) \<Longrightarrow> trained_from c x (self', h')"
proof (induction k arbitrary: self h w bs)
  case 0
  then show ?case by simp
next
  case (Suc k)
  obtain b w1 where rb: "pool_random_batch c n w = (b, w1)"
    by (cases "pool_random_batch c n w")
  show ?case
  proof (cases "do_training c self h i b")
    case (Inl e)
    with Suc.prems(1) rb show ?thesis by simp
  next
    case (Inr y)
    obtain self1 h1 where y: "y = (self1, h1)" by (cases y)
    have d: "do_training c self h i b = Inr (self1, h1)" using Inr y by simp
    have t1: "trained_from c x (self1, h1)" using Suc.prems(2) d by (rule trained_from.update)
    show ?thesis
    proof (cases "repeat_updates c i n k (self1, h1, w1)")
      case (Inl e)
      with Suc.prems(1) rb d show ?thesis by simp
    next
      case (Inr z)
      obtain z1 bs1 where z: "z = (z1, bs1)" by (cases z)
      from Suc.prems(1) rb d Inr z have "z1 = (self', h', w')" by simp
      with Inr z have "repeat_updates c i n k (self1, h1, w1) = Inr ((self', h', w'), bs1)" by simp
      from Suc.IH [OF this t1] show ?thesis .
    qed
  qed
qed

lemma maybe_update_trained:
  assumes m: "maybe_update c s = Inr s'" and t: "trained_from c x (st_self s, st_heap s)"
  shows "trained_from c x (st_self s', st_heap s')"
proof (cases "pool_size c (st_world s) \<ge> min_pool_size (st_self s)")
  case True
  from maybe_update_repeat(1) [OF m True] obtain bs where
    "repeat_updates c (itr s) (batch_size (st_self s)) (nat (n_updates_per_sample (st_self s)))
       (st_self s, st_heap s, st_world s) = Inr ((st_self s', st_heap s', st_world s'), bs)"
    by blast
  then show ?thesis using t by (rule repeat_updates_trained)
next
  case False
  from maybe_update_repeat(2) [OF m False] t show ?thesis by simp
qed

lemma train_step_trained:
  assumes ts: "train_step c s = Inr s'" and t: "trained_from c x (st_self s, st_heap s)"
  shows "trained_from c x (st_self s', st_heap s')"
proof -
  obtain s1 a ob' r where i: "interact c (begin_episode c s) = (s1, a, ob', r)"
    by (cases "interact c (begin_episode c s)") auto
  from begin_episode_keeps(3) [of c s] obtain l where
    "st_self (begin_episode c s) = (st_self s)\<lparr>es_path_returns := l\<rparr>" by blast
  then have sf: "st_self (collect_transition c s) = (st_self s)\<lparr>es_path_returns := l\<rparr>"
    using collect_transition_fields(3) [OF i] by simp
  have "trained_from c x ((st_self s)\<lparr>es_path_returns := l\<rparr>, st_heap s)"
    using t by (rule trained_from.path_return)
  then have t2: "trained_from c x (st_self (collect_transition c s), st_heap (collect_transition c s))"
    unfolding sf collect_transition_heap .
  have "maybe_update c (collect_transition c s) = Inr s'" using ts by (simp add: train_step_def)
  then show ?thesis using t2 by (rule maybe_update_trained)
qed

lemma train_steps_trained:
  "train_steps c n s = Inr s' \<Longrightarrow> trained_from c x (st_self s, st_heap s) \<Longrightarrow>
   trained_from c x (st_self s', st_heap s')"
proof (induction n arbitrary: s)
  case 0
  then show ?case by simp
next
  case (Suc n)
  show ?case
  proof (cases "train_step c s")
    case (Inl e)
    with Suc.prems(1) show ?thesis by simp
  next
    case (Inr s1)
    then have "trained_from c x (st_self s1, st_heap s1)" using Suc.prems(2) by (rule train_step_trained)
    moreover from Suc.prems(1) Inr have "train_steps c n s1 = Inr s'" by simp
    ultimately show ?thesis using Suc.IH by blast
  qed
qed

lemma end_epoch_keeps:
  "st_self (end_epoch c s epoch) = st_self s" "st_heap (end_epoch c s epoch) = st_heap s"
  by (simp_all add: end_epoch_def evaluate_def Let_def)

lemma epochs_trained:
  "epochs c epoch k s = Inr s' \<Longrightarrow> trained_from c x (st_self s, st_heap s) \<Longrightarrow>
   trained_from c x (st_self s', st_heap s')"
proof (induction k arbitrary: s epoch)
  case 0
  then show ?case by simp
next
  case (Suc k)
  show ?case
  proof (cases "train_steps c (nat (epoch_length (st_self s))) s")
    case (Inl e)
    with Suc.prems(1) show ?thesis by simp
  next
    case (Inr s1)
    then have "trained_from c x (st_self s1, st_heap s1)" using Suc.prems(2) by (rule train_steps_trained)
    then have "trained_from c x (st_self (end_epoch c s1 epoch), st_heap (end_epoch c s1 epoch))"
      by (simp add: end_epoch_keeps)
    moreover from Suc.prems(1) Inr have "epochs c (epoch + 1) k (end_epoch c s1 epoch) = Inr s'" by simp
    ultimately show ?thesis using Suc.IH by blast
  qed
qed

lemma train_trained:
  assumes "train c self h w = Inr s'"
  shows "trained_from c (self, h) (st_self s', st_heap s')"
proof -
  let ?s0 = "\<lparr>st_self = self, st_heap = h,
                st_world = pool_new c (replay_pool_size self) (observation_dim self) (action_dim self) w,
                st_trace = [PoolNew (replay_pool_size self) (observation_dim self) (action_dim self)],
                itr = 0, path_length = 0, path_return = 0, terminal = False, observation = []\<rparr>"
  obtain s1 where sw: "start_worker c ?s0 = Inr s1"
  proof (cases "start_worker c ?s0")
    case (Inl e)
    with assms show ?thesis by (simp add: train_def)
  next
    case (Inr x)
    with that show ?thesis by blast
  qed
  have k1: "st_self s1 = self" "st_heap s1 = h"
    using sw by (auto simp: start_worker_def Let_def split: if_splits)
  obtain ob w1 where er: "env_reset c (st_world s1) = (ob, w1)" by (cases "env_reset c (st_world s1)")
  let ?s2 = "s1\<lparr>st_world := w1, st_trace := st_trace s1 @ [EnvReset], observation := ob\<rparr>"
  obtain s3 where ep: "epochs c 0 (nat (n_epoch self)) ?s2 = Inr s3"
    and s': "s' = s3\<lparr>st_world := env_terminate c (st_world s3), st_trace := st_trace s3 @ [EnvTerminate]\<rparr>"
  proof (cases "epochs c 0 (nat (n_epoch self)) ?s2")
    case (Inl e)
    with assms sw er show ?thesis by (simp add: train_def)
  next
    case (Inr x)
    with assms sw er have "s' = x\<lparr>st_world := env_terminate c (st_world x), st_trace := st_trace x @ [EnvTerminate]\<rparr>"
      by (simp add: train_def)
    with Inr that show ?thesis by blast
  qed
  have "trained_from c (self, h) (st_self ?s2, st_heap ?s2)"
    using k1 by (simp add: trained_from.start)
  with ep have "trained_from c (self, h) (st_self s3, st_heap s3)" by (rule epochs_trained)
  then show ?thesis unfolding s' by simp
qed

lemma trained_from_invariant:
  "trained_from c x y \<Longrightarrow> well_formed (fst x) (snd x) \<longrightarrow>
     well_formed (fst y) (snd y) \<and> length (snd y) = length (snd x) \<and>
     policy (fst y) = policy (fst x) \<and> qf (fst y) = qf (fst x) \<and>
     target_policy (fst y) = target_policy (fst x) \<and> target_qf (fst y) = target_qf (fst x)"
proof (induction rule: trained_from.induct)
  case start
  show ?case by simp
next
  case (update self h i b self' h')
  show ?case
  proof
    assume wf: "well_formed (fst x) (snd x)"
    with update.IH have ih: "well_formed self h" "length h = length (snd x)"
      "policy self = policy (fst x)" "qf self = qf (fst x)"
      "target_policy self = target_policy (fst x)" "target_qf self = target_qf (fst x)"
      by simp_all
    from do_training_self [OF update.hyps(2)] obtain q p where
      s: "self' = self\<lparr>qf_optimizer := q, policy_optimizer := p\<rparr>" by blast
    have "well_formed self' h'" using update.hyps(2) ih(1) by (rule do_training_well_formed)
    moreover have "length h' = length (snd x)" using do_training_length [OF update.hyps(2)] ih(2) by simp
    moreover have "policy self' = policy (fst x)" "qf self' = qf (fst x)"
      "target_policy self' = target_policy (fst x)" "target_qf self' = target_qf (fst x)"
      unfolding s using ih by simp_all
    ultimately show "well_formed (fst (self', h')) (snd (self', h')) \<and>
       length (snd (self', h')) = length (snd x) \<and>
       policy (fst (self', h')) = policy (fst x) \<and> qf (fst (self', h')) = qf (fst x) \<and>
       target_policy (fst (self', h')) = target_policy (fst x) \<and>
       target_qf (fst (self', h')) = target_qf (fst x)" by simp
  qed
next
  case (path_return self h l)
  then show ?case by (simp add: well_formed_def)
qed

text \<open>
  C8. At construction the two target networks are new objects (at the two addresses
  after the store's last), holding the parameter values of \<open>qf\<close> and \<open>policy\<close>, which
  stay in place untouched; the two optimizers are bound to \<open>qf\<close> and \<open>policy\<close>, so that
  the trainer's references are in order. From any such state, a call of \<open>do_training\<close>
  that returns keeps the references in order and the same, leaves both targets'
  parameters alone during \<open>train_qf\<close> and \<open>train_policy\<close>, and ends with each target at
  the running average of its prior value and its live network. A pass through the loop
  body, the whole of \<open>train\<close> and a run from construction change trainer and store by
  calls of \<open>do_training\<close> (and by recording path returns) and by nothing else; so
  throughout a run no object is added to the store, the four references stay what they
  were, in order, and the optimizers stay bound to \<open>qf\<close> and \<open>policy\<close>.
\<close>

theorem targets_cloned_once_then_soft_updated:
  "(arg_policy a < length h0 \<and> arg_qf a < length h0 \<and> arg_policy a \<noteq> arg_qf a \<longrightarrow>
      target_qf (fst (DDPG_init c a h0)) = length h0 \<and>
      target_policy (fst (DDPG_init c a h0)) = Suc (length h0) \<and>
      length (snd (DDPG_init c a h0)) = Suc (Suc (length h0)) \<and>
      (\<forall>r<length h0. snd (DDPG_init c a h0) ! r = h0 ! r) \<and>
      get_param_values (snd (DDPG_init c a h0)) (target_qf (fst (DDPG_init c a h0))) =
        get_param_values h0 (arg_qf a) \<and>
      get_param_values (snd (DDPG_init c a h0)) (target_policy (fst (DDPG_init c a h0))) =
        get_param_values h0 (arg_policy a) \<and>
      opt_params (qf_optimizer (fst (DDPG_init c a h0))) = arg_qf a \<and>
      opt_params (policy_optimizer (fst (DDPG_init c a h0))) = arg_policy a \<and>
      well_formed (fst (DDPG_init c a h0)) (snd (DDPG_init c a h0))) \<and>
   (well_formed self h \<and> do_training c self h k b = Inr (self', h') \<longrightarrow>
      well_formed self' h' \<and> length h' = length h \<and>
      policy self' = policy self \<and> qf self' = qf self \<and>
      target_policy self' = target_policy self \<and> target_qf self' = target_qf self \<and>
      (\<forall>ys os as. get_param_values (snd (train_qf c self h ys os as)) (target_policy self) =
                     get_param_values h (target_policy self) \<and>
                   get_param_values (snd (train_qf c self h ys os as)) (target_qf self) =
                     get_param_values h (target_qf self) \<and>
                   get_param_values (snd (train_policy c self h os)) (target_policy self) =
                     get_param_values h (target_policy self) \<and>
                   get_param_values (snd (train_policy c self h os)) (target_qf self) =
                     get_param_values h (target_qf self)) \<and>
      get_param_values h' (target_policy self) =
        running_average_tensor_list (get_param_values h (target_policy self))
          (get_param_values h' (policy self)) (soft_target_tau self) \<and>
      get_param_values h' (target_qf self) =
        running_average_tensor_list (get_param_values h (target_qf self))
          (get_param_values h' (qf self)) (soft_target_tau self)) \<and>
   st_heap (collect_transition c0 s) = st_heap s \<and>
   st_heap (end_epoch c0 s epoch) = st_heap s \<and>
   (train_step c s1 = Inr s2 \<longrightarrow>
      trained_from c (st_self s1, st_heap s1) (st_self s2, st_heap s2)) \<and>
   (train c self h w = Inr s3 \<longrightarrow> trained_from c (self, h) (st_self s3, st_heap s3)) \<and>
   (run c a h0 w = Inr s4 \<longrightarrow> trained_from c (DDPG_init c a h0) (st_self s4, st_heap s4)) \<and>
   (well_formed self h \<and> trained_from c (self, h) (self5, h5) \<longrightarrow>
      well_formed self5 h5 \<and> length h5 = length h \<and>
      policy self5 = policy self \<and> qf self5 = qf self \<and>
      target_policy self5 = target_policy self \<and> target_qf self5 = target_qf self \<and>
      opt_params (qf_optimizer self5) = qf self \<and>
      opt_params (policy_optimizer self5) = policy self)"
proof (intro conjI impI)
  assume a: "arg_policy a < length h0 \<and> arg_qf a < length h0 \<and> arg_policy a \<noteq> arg_qf a"
  show "target_qf (fst (DDPG_init c a h0)) = length h0"
    "target_policy (fst (DDPG_init c a h0)) = Suc (length h0)"
    "opt_params (qf_optimizer (fst (DDPG_init c a h0))) = arg_qf a"
    "opt_params (policy_optimizer (fst (DDPG_init c a h0))) = arg_policy a"
    "length (snd (DDPG_init c a h0)) = Suc (Suc (length h0))"
    by (simp_all add: DDPG_init_refs)
  show "\<forall>r<length h0. snd (DDPG_init c a h0) ! r = h0 ! r"
    "get_param_values (snd (DDPG_init c a h0)) (target_qf (fst (DDPG_init c a h0))) =
        get_param_values h0 (arg_qf a)"
    "get_param_values (snd (DDPG_init c a h0)) (target_policy (fst (DDPG_init c a h0))) =
        get_param_values h0 (arg_policy a)"
    using a DDPG_init_targets [of a h0 c] by blast+
  show "well_formed (fst (DDPG_init c a h0)) (snd (DDPG_init c a h0))"
    using a by (simp add: DDPG_init_well_formed)
next
  assume "well_formed self h \<and> do_training c self h k b = Inr (self', h')"
  then have wf: "well_formed self h" and d: "do_training c self h k b = Inr (self', h')"
    by simp_all
  show "well_formed self' h'" using d wf by (rule do_training_well_formed)
  show "length h' = length h" using d by (rule do_training_length)
  from do_training_self [OF d] obtain q p where
    s: "self' = self\<lparr>qf_optimizer := q, policy_optimizer := p\<rparr>" by blast
  show "policy self' = policy self" "qf self' = qf self"
    "target_policy self' = target_policy self" "target_qf self' = target_qf self"
    unfolding s by simp_all
  have n: "target_policy self \<noteq> opt_params (qf_optimizer self)"
    "target_policy self \<noteq> opt_params (policy_optimizer self)"
    "target_qf self \<noteq> opt_params (qf_optimizer self)"
    "target_qf self \<noteq> opt_params (policy_optimizer self)"
    using wf by (auto simp: well_formed_def)
  show "\<forall>ys os as. get_param_values (snd (train_qf c self h ys os as)) (target_policy self) =
                     get_param_values h (target_policy self) \<and>
                   get_param_values (snd (train_qf c self h ys os as)) (target_qf self) =
                     get_param_values h (target_qf self) \<and>
                   get_param_values (snd (train_policy c self h os)) (target_policy self) =
                     get_param_values h (target_policy self) \<and>
                   get_param_values (snd (train_policy c self h os)) (target_qf self) =
                     get_param_values h (target_qf self)"
    using n by (simp add: train_qf_frame train_policy_frame)
  show "get_param_values h' (target_policy self) =
        running_average_tensor_list (get_param_values h (target_policy self))
          (get_param_values h' (policy self)) (soft_target_tau self)"
    using d wf by (rule do_training_targets)
  show "get_param_values h' (target_qf self) =
        running_average_tensor_list (get_param_values h (target_qf self))
          (get_param_values h' (qf self)) (soft_target_tau self)"
    using d wf by (rule do_training_targets)
next
  show "st_heap (collect_transition c0 s) = st_heap s"
    by (rule collect_transition_heap)
next
  show "st_heap (end_epoch c0 s epoch) = st_heap s"
    by (simp add: end_epoch_def evaluate_def Let_def)
next
  assume "train_step c s1 = Inr s2"
  then show "trained_from c (st_self s1, st_heap s1) (st_self s2, st_heap s2)"
    using trained_from.start by (rule train_step_trained)
next
  assume "train c self h w = Inr s3"
  then show "trained_from c (self, h) (st_self s3, st_heap s3)" by (rule train_trained)
next
  assume r: "run c a h0 w = Inr s4"
  obtain self0 h1 where i: "DDPG_init c a h0 = (self0, h1)" by (cases "DDPG_init c a h0")
  from r i have "train c self0 h1 w = Inr s4" by (simp add: run_def)
  then show "trained_from c (DDPG_init c a h0) (st_self s4, st_heap s4)"
    unfolding i by (rule train_trained)
next
  assume "well_formed self h \<and> trained_from c (self, h) (self5, h5)"
  then have wf: "well_formed self h" and t: "trained_from c (self, h) (self5, h5)" by simp_all
  have inv: "well_formed self5 h5 \<and> length h5 = length h \<and>
     policy self5 = policy self \<and> qf self5 = qf self \<and>
     target_policy self5 = target_policy self \<and> target_qf self5 = target_qf self"
    using trained_from_invariant [OF t] wf by simp
  show "well_formed self5 h5" "length h5 = length h"
    "policy self5 = policy self" "qf self5 = qf self"
    "target_policy self5 = target_policy self" "target_qf self5 = target_qf self"
    using inv by simp_all
  show "opt_params (qf_optimizer self5) = qf self" "opt_params (policy_optimizer self5) = policy self"
    using inv wf by (simp_all add: well_formed_def)
qed

text \<open>
  The scenario: the targets are the objects 2 and 3, next to the live objects 0 and 1,
  and one update step moves the critic's target from 2 to 15/8. A whole run (one epoch of
  two steps) ends with the same four objects and the same references.
\<close>

theorem targets_cloned_once_then_soft_updated_witness:
  "arg_policy ex_args < length ex_heap0 \<and> arg_qf ex_args < length ex_heap0 \<and>
   arg_policy ex_args \<noteq> arg_qf ex_args \<and>
   target_qf (fst (DDPG_init ex_collab ex_args ex_heap0)) = 2 \<and>
   target_policy (fst (DDPG_init ex_collab ex_args ex_heap0)) = 3 \<and>
   opt_params (qf_optimizer (fst (DDPG_init ex_collab ex_args ex_heap0))) = 1 \<and>
   opt_params (policy_optimizer (fst (DDPG_init ex_collab ex_args ex_heap0))) = 0 \<and>
   well_formed ex_self ex_heap \<and>
   (\<exists>h'. do_training ex_collab ex_self ex_heap 0 ex_batch = Inr (ex_self, h') \<and>
         well_formed ex_self h' \<and>
         get_param_values h' (target_qf ex_self) = [[15 / 8]] \<and>
         get_param_values h' (target_qf ex_self) =
           running_average_tensor_list [[2]] [[3 / 2]] (1 / 4)) \<and>
   (\<exists>s'. run ex_collab ex_args ex_heap0 ([], 0) = Inr s' \<and>
         trained_from ex_collab (ex_self, ex_heap) (st_self s', st_heap s') \<and>
         well_formed (st_self s') (st_heap s') \<and> length (st_heap s') = 4 \<and>
         target_qf (st_self s') = 2 \<and> target_policy (st_self s') = 3 \<and>
         opt_params (qf_optimizer (st_self s')) = 1 \<and>
         opt_params (policy_optimizer (st_self s')) = 0)"
proof -
  let ?h = "[\<lparr>param_values = [[3 / 4]], grad = Some [[1]]\<rparr>, \<lparr>param_values = [[3 / 2]], grad = Some [[2]]\<rparr>,
      \<lparr>param_values = [[15 / 8]], grad = None\<rparr>, \<lparr>param_values = [[15 / 16]], grad = None\<rparr>]"
  have a: "arg_policy ex_args < length ex_heap0 \<and> arg_qf ex_args < length ex_heap0 \<and>
           arg_policy ex_args \<noteq> arg_qf ex_args"
    by (simp add: ex_args_def ex_heap0_def)
  have d: "do_training ex_collab ex_self ex_heap 0 ex_batch = Inr (ex_self, ?h)"
    by (rule ex_do_training)
  from ex_run_returns obtain s4 where r: "run ex_collab ex_args ex_heap0 ([], 0) = Inr s4" by blast
  have init: "DDPG_init ex_collab ex_args ex_heap0 = (ex_self, ex_heap)"
    by (simp add: ex_self_def ex_heap_def)
  note t = targets_cloned_once_then_soft_updated [where a = ex_args and ?h0.0 = ex_heap0
      and c = ex_collab and self = ex_self and h = ex_heap and k = 0 and b = ex_batch
      and self' = ex_self and h' = ?h and ?c0.0 = ex_collab and s = "ex_state False False"
      and w = "([], 0)" and ?s4.0 = s4 and ?self5.0 = "st_self s4" and ?h5.0 = "st_heap s4"]
  from t a have i: "target_qf (fst (DDPG_init ex_collab ex_args ex_heap0)) = length ex_heap0"
    "target_policy (fst (DDPG_init ex_collab ex_args ex_heap0)) = Suc (length ex_heap0)"
    "opt_params (qf_optimizer (fst (DDPG_init ex_collab ex_args ex_heap0))) = arg_qf ex_args"
    "opt_params (policy_optimizer (fst (DDPG_init ex_collab ex_args ex_heap0))) = arg_policy ex_args"
    "well_formed (fst (DDPG_init ex_collab ex_args ex_heap0)) (snd (DDPG_init ex_collab ex_args ex_heap0))"
    by blast+
  have i': "target_qf (fst (DDPG_init ex_collab ex_args ex_heap0)) = 2"
    "target_policy (fst (DDPG_init ex_collab ex_args ex_heap0)) = 3"
    "opt_params (qf_optimizer (fst (DDPG_init ex_collab ex_args ex_heap0))) = 1"
    "opt_params (policy_optimizer (fst (DDPG_init ex_collab ex_args ex_heap0))) = 0"
    using i(1-4) by (simp_all add: ex_heap0_def ex_args_def)
  have wf: "well_formed ex_self ex_heap" using i(5) by (simp add: ex_self_def ex_heap_def)
  from t wf d have wf': "well_formed ex_self ?h"
    and q: "get_param_values ?h (target_qf ex_self) =
        running_average_tensor_list (get_param_values ex_heap (target_qf ex_self))
          (get_param_values ?h (qf ex_self)) (soft_target_tau ex_self)"
    by blast+
  have v: "get_param_values ?h (qf ex_self) = [[3 / 2]]"
    "get_param_values ex_heap (target_qf ex_self) = [[2]]"
    "soft_target_tau ex_self = 1 / 4"
    by (simp_all add: get_param_values_def ex_self_refs ex_heap_eval ex_self_config)
  have q': "get_param_values ?h (target_qf ex_self) =
           running_average_tensor_list [[2]] [[3 / 2]] (1 / 4)"
    using q unfolding v .
  have q'': "get_param_values ?h (target_qf ex_self) = [[15 / 8]]"
    by (simp add: get_param_values_def ex_self_refs)
  from t r have "trained_from ex_collab (DDPG_init ex_collab ex_args ex_heap0) (st_self s4, st_heap s4)"
    by blast
  then have tf: "trained_from ex_collab (ex_self, ex_heap) (st_self s4, st_heap s4)"
    unfolding init .
  from t wf tf have inv: "well_formed (st_self s4) (st_heap s4)" "length (st_heap s4) = length ex_heap"
    "target_qf (st_self s4) = target_qf ex_self" "target_policy (st_self s4) = target_policy ex_self"
    "opt_params (qf_optimizer (st_self s4)) = qf ex_self"
    "opt_params (policy_optimizer (st_self s4)) = policy ex_self"
    by blast+
  have inv': "length (st_heap s4) = 4" "target_qf (st_self s4) = 2" "target_policy (st_self s4) = 3"
    "opt_params (qf_optimizer (st_self s4)) = 1" "opt_params (policy_optimizer (st_self s4)) = 0"
    using inv(2-6) by (simp_all add: ex_self_refs ex_heap_eval)
  have one: "\<exists>h'. do_training ex_collab ex_self ex_heap 0 ex_batch = Inr (ex_self, h') \<and>
         well_formed ex_self h' \<and>
         get_param_values h' (target_qf ex_self) = [[15 / 8]] \<and>
         get_param_values h' (target_qf ex_self) =
           running_average_tensor_list [[2]] [[3 / 2]] (1 / 4)"
    using d wf' q' q'' by blast
  have two: "\<exists>s'. run ex_collab ex_args ex_heap0 ([], 0) = Inr s' \<and>
         trained_from ex_collab (ex_self, ex_heap) (st_self s', st_heap s') \<and>
         well_formed (st_self s') (st_heap s') \<and> length (st_heap s') = 4 \<and>
         target_qf (st_self s') = 2 \<and> target_policy (st_self s') = 3 \<and>
         opt_params (qf_optimizer (st_self s')) = 1 \<and>
         opt_params (policy_optimizer (st_self s')) = 0"
    using r tf inv(1) inv' by blast
  show ?thesis using a i' wf one two by blast
qed

end
